theory Spec2Isabelle
  imports Main "HOL-Library.Word"
begin

unbundle bit_operations_syntax

section \<open>The CDC ACM function driver \<^verbatim>\<open>f_acm.c\<close>: data model\<close>

text \<open>
  The development follows \<^verbatim>\<open>drivers/usb/gadget/function/f_acm.c\<close>. C integers of a
  fixed width that are stored (\<^verbatim>\<open>u8\<close>, \<^verbatim>\<open>u16\<close>, \<^verbatim>\<open>__le32\<close>) are words; \<^verbatim>\<open>int\<close> status
  codes are small and never overflow here, so they are \<open>int\<close>; \<^verbatim>\<open>unsigned\<close> lengths are
  \<open>nat\<close>. Memory behind a \<^verbatim>\<open>void *\<close> is a function from byte offsets to bytes.
\<close>

type_synonym u8 = "8 word"
type_synonym u16 = "16 word"
type_synonym u32 = "32 word"
type_synonym mem = "nat \<Rightarrow> u8"

subsection \<open>Constants of the headers\<close>

text \<open>\<^verbatim>\<open>linux/usb/ch9.h\<close>, \<^verbatim>\<open>linux/usb/cdc.h\<close> and \<^verbatim>\<open>errno.h\<close> are not part of the source
  file; their values are fixed by the USB and CDC specifications and the Linux ABI.\<close>

definition USB_DIR_OUT :: u8 where "USB_DIR_OUT = 0"
definition USB_DIR_IN :: u8 where "USB_DIR_IN = 0x80"
definition USB_TYPE_CLASS :: u8 where "USB_TYPE_CLASS = push_bit 5 1"
definition USB_RECIP_INTERFACE :: u8 where "USB_RECIP_INTERFACE = 0x01"

definition USB_CDC_REQ_SET_LINE_CODING :: u8 where "USB_CDC_REQ_SET_LINE_CODING = 0x20"
definition USB_CDC_REQ_GET_LINE_CODING :: u8 where "USB_CDC_REQ_GET_LINE_CODING = 0x21"
definition USB_CDC_REQ_SET_CONTROL_LINE_STATE :: u8 where
  "USB_CDC_REQ_SET_CONTROL_LINE_STATE = 0x22"
definition USB_CDC_NOTIFY_SERIAL_STATE :: u8 where "USB_CDC_NOTIFY_SERIAL_STATE = 0x20"

definition EINVAL :: int where "EINVAL = 22"
definition ENODEV :: int where "ENODEV = 19"
definition EOPNOTSUPP :: int where "EOPNOTSUPP = 95"
definition ESHUTDOWN :: int where "ESHUTDOWN = 108"

text \<open>The bits of \<^verbatim>\<open>port_handshake_bits\<close> and \<^verbatim>\<open>serial_state\<close> (\<^verbatim>\<open>struct f_acm\<close>).\<close>

definition ACM_CTRL_RTS :: u16 where "ACM_CTRL_RTS = push_bit 1 1"
definition ACM_CTRL_DTR :: u16 where "ACM_CTRL_DTR = push_bit 0 1"

definition ACM_CTRL_OVERRUN :: u16 where "ACM_CTRL_OVERRUN = push_bit 6 1"
definition ACM_CTRL_PARITY :: u16 where "ACM_CTRL_PARITY = push_bit 5 1"
definition ACM_CTRL_FRAMING :: u16 where "ACM_CTRL_FRAMING = push_bit 4 1"
definition ACM_CTRL_RI :: u16 where "ACM_CTRL_RI = push_bit 3 1"
definition ACM_CTRL_BRK :: u16 where "ACM_CTRL_BRK = push_bit 2 1"
definition ACM_CTRL_DSR :: u16 where "ACM_CTRL_DSR = push_bit 1 1"
definition ACM_CTRL_DCD :: u16 where "ACM_CTRL_DCD = push_bit 0 1"

text \<open>\<^verbatim>\<open>GS_NOTIFY_MAXPACKET\<close> is 16 with \<^verbatim>\<open>CONFIG_LGE_USB_G_ANDROID\<close> and 10 without.\<close>

definition GS_NOTIFY_MAXPACKET :: "bool \<Rightarrow> nat" where
  "GS_NOTIFY_MAXPACKET lge = (if lge then 16 else 10)"

subsection \<open>Bytes in memory\<close>

text \<open>The target (MSM, ARM) is little-endian: \<^verbatim>\<open>cpu_to_le16\<close> is the identity and a
  \<^verbatim>\<open>u16\<close> in memory is its low byte followed by its high byte.\<close>

definition le16 :: "u16 \<Rightarrow> u8 list" where
  "le16 w = [ucast w, ucast (drop_bit 8 w)]"

definition le32 :: "u32 \<Rightarrow> u8 list" where
  "le32 w = [ucast w, ucast (drop_bit 8 w), ucast (drop_bit 16 w), ucast (drop_bit 24 w)]"

definition le32_of :: "u8 \<Rightarrow> u8 \<Rightarrow> u8 \<Rightarrow> u8 \<Rightarrow> u32" where
  "le32_of b0 b1 b2 b3 =
     ucast b0 OR push_bit 8 (ucast b1) OR push_bit 16 (ucast b2) OR push_bit 24 (ucast b3)"

text \<open>\<^verbatim>\<open>memcpy(dst + off, src, length src)\<close> on a memory region.\<close>

definition memcpy :: "mem \<Rightarrow> nat \<Rightarrow> u8 list \<Rightarrow> mem" where
  "memcpy dst off src =
     (\<lambda>i. if off \<le> i \<and> i < off + length src then src ! (i - off) else dst i)"

text \<open>The first \<open>n\<close> bytes of a memory region.\<close>

definition bytes :: "mem \<Rightarrow> nat \<Rightarrow> u8 list" where
  "bytes m n = map m [0..<n]"

subsection \<open>Structures\<close>

text \<open>\<^verbatim>\<open>struct usb_cdc_line_coding\<close> (packed, 7 bytes): \<^verbatim>\<open>__le32 dwDTERate\<close>,
  \<^verbatim>\<open>bCharFormat\<close>, \<^verbatim>\<open>bParityType\<close>, \<^verbatim>\<open>bDataBits\<close>.\<close>

record usb_cdc_line_coding =
  dwDTERate :: u32
  bCharFormat :: u8
  bParityType :: u8
  bDataBits :: u8

definition sizeof_line_coding :: nat where "sizeof_line_coding = 7"

definition line_coding_bytes :: "usb_cdc_line_coding \<Rightarrow> u8 list" where
  "line_coding_bytes lc = le32 (dwDTERate lc) @ [bCharFormat lc, bParityType lc, bDataBits lc]"

text \<open>Reading the structure through a \<^verbatim>\<open>struct usb_cdc_line_coding *\<close> into a buffer.\<close>

definition line_coding_at :: "mem \<Rightarrow> usb_cdc_line_coding" where
  "line_coding_at m =
     \<lparr>dwDTERate = le32_of (m 0) (m 1) (m 2) (m 3),
      bCharFormat = m 4, bParityType = m 5, bDataBits = m 6\<rparr>"

text \<open>\<^verbatim>\<open>struct usb_ctrlrequest\<close>; the 16-bit fields hold the values that
  \<^verbatim>\<open>le16_to_cpu\<close> yields.\<close>

record usb_ctrlrequest =
  bRequestType :: u8
  bRequest :: u8
  wValue :: u16
  wIndex :: u16
  wLength :: u16

text \<open>The completion routines a request of this driver can carry.\<close>

datatype completion =
  Acm_cdc_notify_complete | Acm_complete_set_line_coding | Composite_setup_complete

text \<open>\<^verbatim>\<open>struct usb_request\<close>: the fields the driver touches.\<close>

record usb_request =
  buf :: mem
  req_length :: nat
  req_zero :: bool
  req_complete :: completion
  status :: int
  actual :: nat

text \<open>\<^verbatim>\<open>struct usb_ep\<close>: \<open>driver_data\<close> and \<open>desc\<close> are pointers that the driver only
  tests against \<^verbatim>\<open>NULL\<close> (\<open>True\<close> is non-\<^verbatim>\<open>NULL\<close>); \<open>enabled\<close> and \<open>halted\<close> are the
  controller's state of the endpoint, changed by \<^verbatim>\<open>usb_ep_enable\<close>,
  \<^verbatim>\<open>usb_ep_disable\<close> and \<^verbatim>\<open>usb_ep_set_halt\<close>.\<close>

record usb_ep =
  driver_data :: bool
  desc :: bool
  enabled :: bool
  halted :: bool

text \<open>\<^verbatim>\<open>enum transport_type\<close> is declared in \<^verbatim>\<open>usb_gadget_xport.h\<close>, which is not part of
  the source file. The driver names two enumerators; every other one is
  \<open>USB_GADGET_XPORT_OTHER\<close> with its number.\<close>

datatype transport_type =
  USB_GADGET_XPORT_TTY | USB_GADGET_XPORT_SMD | USB_GADGET_XPORT_OTHER nat

record acm_port_info =
  info_transport :: transport_type
  info_port_num :: nat
  client_port_num :: nat

text \<open>\<^verbatim>\<open>struct f_acm\<close>, with the members of the embedded \<^verbatim>\<open>struct gserial port\<close> that the
  driver uses (\<open>port_in\<close>, \<open>port_out\<close>, \<open>notify_modem\<close>: is the callback set). The
  spinlock has no state of its own in a model where each entry point runs to its end.\<close>

record f_acm =
  port_in :: usb_ep
  port_out :: usb_ep
  notify_modem :: bool
  ctrl_id :: u8
  data_id :: u8
  port_num :: u8
  transport :: transport_type
  pending :: bool
  notify :: usb_ep
  notify_req :: "usb_request option"
  port_line_coding :: usb_cdc_line_coding
  port_handshake_bits :: u16
  serial_state :: u16

subsection \<open>The surroundings of the driver\<close>

text \<open>Calls into the transports (\<^verbatim>\<open>u_serial.c\<close>, \<^verbatim>\<open>u_smd.c\<close>), recorded in order.\<close>

datatype xport_call =
  Gserial_connect nat | Gsmd_connect nat | Gserial_disconnect | Gsmd_disconnect nat
  | Notify_modem nat u16

text \<open>
  Everything outside \<^verbatim>\<open>struct f_acm\<close>:
  \<^item> \<open>config_lge\<close>: is the file compiled with \<^verbatim>\<open>CONFIG_LGE_USB_G_ANDROID\<close>;
  \<^item> \<open>gacm_ports\<close>: the global table of that name;
  \<^item> \<open>cdev_req\<close> and \<open>ep0\<close>: \<^verbatim>\<open>cdev->req\<close> and \<^verbatim>\<open>cdev->gadget->ep0\<close>;
  \<^item> \<open>notify_queue\<close>: the requests the controller has accepted on the notification
    endpoint and not yet completed (the transfers in flight);
  \<^item> \<open>notify_submitted\<close>, \<open>ep0_submitted\<close>: every call of \<^verbatim>\<open>usb_ep_queue\<close> on the
    notification endpoint and on endpoint 0, with the request passed and the status
    returned;
  \<^item> \<open>xport_calls\<close>: the calls into the transports.
\<close>

record world =
  config_lge :: bool
  gacm_ports :: "nat \<Rightarrow> acm_port_info"
  cdev_req :: usb_request
  ep0 :: usb_ep
  notify_queue :: "usb_request list"
  notify_submitted :: "(usb_request \<times> int) list"
  ep0_submitted :: "(usb_request \<times> int) list"
  xport_calls :: "xport_call list"

text \<open>The bytes a request puts on the wire: the first \<^verbatim>\<open>req->length\<close> bytes of
  \<^verbatim>\<open>req->buf\<close>.\<close>

definition wire :: "usb_request \<Rightarrow> u8 list" where
  "wire r = bytes (buf r) (req_length r)"

text \<open>
  Modelled from the spec: the endpoint submission primitive \<^verbatim>\<open>usb_ep_queue\<close> of the
  controller driver is not part of the source file. It is asynchronous and returns a
  status, here the parameter \<open>qst\<close>: negative when the request is refused, and else
  the request is in flight until its completion routine is called. A completion that
  the controller delivers before \<^verbatim>\<open>usb_ep_queue\<close> returns is the completion event
  right after the call: between the two the driver only tests the status.
\<close>

definition usb_ep_queue_notify :: "int \<Rightarrow> usb_request \<Rightarrow> world \<Rightarrow> world \<times> int" where
  "usb_ep_queue_notify qst req w =
     (w\<lparr>notify_queue := (if qst < 0 then notify_queue w else notify_queue w @ [req]),
        notify_submitted := notify_submitted w @ [(req, qst)]\<rparr>, qst)"

definition usb_ep_queue_ep0 :: "int \<Rightarrow> usb_request \<Rightarrow> world \<Rightarrow> world \<times> int" where
  "usb_ep_queue_ep0 qst req w =
     (w\<lparr>cdev_req := req, ep0_submitted := ep0_submitted w @ [(req, qst)]\<rparr>, qst)"

text \<open>Modelled from the spec: \<^verbatim>\<open>usb_ep_set_halt\<close>, \<^verbatim>\<open>usb_ep_enable\<close> and
  \<^verbatim>\<open>usb_ep_disable\<close> of the gadget core (not part of the source file) halt, enable
  and disable the endpoint; the driver ignores what they return.\<close>

definition usb_ep_set_halt :: "usb_ep \<Rightarrow> usb_ep" where
  "usb_ep_set_halt ep = ep\<lparr>halted := True\<rparr>"

definition usb_ep_enable :: "usb_ep \<Rightarrow> usb_ep" where
  "usb_ep_enable ep = ep\<lparr>enabled := True\<rparr>"

definition usb_ep_disable :: "usb_ep \<Rightarrow> usb_ep" where
  "usb_ep_disable ep = ep\<lparr>enabled := False\<rparr>"

text \<open>Modelled from the spec: \<^verbatim>\<open>config_ep_by_speed\<close> of the composite framework (not
  part of the source file) binds the endpoint's descriptor for the negotiated speed and
  returns whether it could, here the parameter \<open>res\<close>: 0 when \<^verbatim>\<open>ep->desc\<close> is set,
  non-zero when no descriptor was chosen.\<close>

definition config_ep_by_speed :: "int \<Rightarrow> usb_ep \<Rightarrow> usb_ep \<times> int" where
  "config_ep_by_speed res ep = (if res = 0 then ep\<lparr>desc := True\<rparr> else ep, res)"

section \<open>Control requests\<close>

text \<open>\<^verbatim>\<open>acm_complete_set_line_coding(ep, req)\<close>, with \<^verbatim>\<open>acm = ep->driver_data\<close>.\<close>

definition acm_complete_set_line_coding ::
  "f_acm \<Rightarrow> usb_ep \<Rightarrow> usb_request \<Rightarrow> f_acm \<times> usb_ep" where
  "acm_complete_set_line_coding acm ep req =
     (if status req \<noteq> 0 then (acm, ep)
      else if actual req \<noteq> sizeof_line_coding then (acm, usb_ep_set_halt ep)
      else (acm\<lparr>port_line_coding := line_coding_at (buf req)\<rparr>, ep))"

text \<open>The value \<^verbatim>\<open>(ctrl->bRequestType << 8) | ctrl->bRequest\<close> that \<^verbatim>\<open>acm_setup\<close>
  switches on.\<close>

definition req_selector :: "u8 \<Rightarrow> u8 \<Rightarrow> int" where
  "req_selector rt rq = push_bit 8 (uint rt) OR uint rq"

text \<open>\<^verbatim>\<open>acm_setup(f, ctrl)\<close>; \<open>qst\<close> is what \<^verbatim>\<open>usb_ep_queue\<close> on endpoint 0 returns
  if it is called. The \<^verbatim>\<open>invalid\<close> label leaves \<^verbatim>\<open>value\<close> at \<^verbatim>\<open>-EOPNOTSUPP\<close>.\<close>

definition acm_setup :: "int \<Rightarrow> f_acm \<Rightarrow> usb_ctrlrequest \<Rightarrow> world \<Rightarrow> f_acm \<times> world \<times> int" where
  "acm_setup qst acm ctrl w =
     (let req = cdev_req w;
          w_index = wIndex ctrl;
          w_value = wValue ctrl;
          w_length = wLength ctrl;
          sel = req_selector (bRequestType ctrl) (bRequest ctrl);
          invalid = (acm, w, req, - EOPNOTSUPP);
          (acm1, w1, req1, val) =
            (if sel = req_selector (USB_DIR_OUT OR USB_TYPE_CLASS OR USB_RECIP_INTERFACE)
                        USB_CDC_REQ_SET_LINE_CODING then
               (if unat w_length \<noteq> sizeof_line_coding \<or> uint w_index \<noteq> uint (ctrl_id acm)
                then invalid
                else (acm, w\<lparr>ep0 := (ep0 w)\<lparr>driver_data := True\<rparr>\<rparr>,
                      req\<lparr>req_complete := Acm_complete_set_line_coding\<rparr>, uint w_length))
             else if sel = req_selector (USB_DIR_IN OR USB_TYPE_CLASS OR USB_RECIP_INTERFACE)
                        USB_CDC_REQ_GET_LINE_CODING then
               (if uint w_index \<noteq> uint (ctrl_id acm) then invalid
                else (let n = min (unat w_length) sizeof_line_coding in
                      (acm, w,
                       req\<lparr>buf := memcpy (buf req) 0
                                    (take n (line_coding_bytes (port_line_coding acm)))\<rparr>,
                       int n)))
             else if sel = req_selector (USB_DIR_OUT OR USB_TYPE_CLASS OR USB_RECIP_INTERFACE)
                        USB_CDC_REQ_SET_CONTROL_LINE_STATE then
               (if uint w_index \<noteq> uint (ctrl_id acm) then invalid
                else (acm\<lparr>port_handshake_bits := w_value\<rparr>,
                      (if notify_modem acm
                       then w\<lparr>xport_calls := xport_calls w @
                               [Notify_modem (client_port_num (gacm_ports w (unat (port_num acm))))
                                  w_value]\<rparr>
                       else w),
                      req, 0))
             else invalid)
      in if 0 \<le> val then
           (let req2 = req1\<lparr>req_zero := False, req_length := nat val\<rparr>;
                (w2, val2) = usb_ep_queue_ep0 qst req2 w1
            in (acm1, w2, val2))
         else (acm1, w1\<lparr>cdev_req := req1\<rparr>, val))"

section \<open>Interface activation\<close>

text \<open>\<^verbatim>\<open>acm_port_connect\<close> and \<^verbatim>\<open>acm_port_disconnect\<close>: the dispatch on the transport.
  What \<^verbatim>\<open>gserial_connect\<close>, \<^verbatim>\<open>gsmd_connect\<close> and their counterparts do inside the
  transports is not part of the source file; the calls are recorded.\<close>

definition acm_port_connect :: "f_acm \<Rightarrow> world \<Rightarrow> world \<times> int" where
  "acm_port_connect acm w =
     (let pn = client_port_num (gacm_ports w (unat (port_num acm))) in
      case transport acm of
        USB_GADGET_XPORT_TTY \<Rightarrow> (w\<lparr>xport_calls := xport_calls w @ [Gserial_connect pn]\<rparr>, 0)
      | USB_GADGET_XPORT_SMD \<Rightarrow> (w\<lparr>xport_calls := xport_calls w @ [Gsmd_connect pn]\<rparr>, 0)
      | USB_GADGET_XPORT_OTHER k \<Rightarrow> (w, - ENODEV))"

definition acm_port_disconnect :: "f_acm \<Rightarrow> world \<Rightarrow> world \<times> int" where
  "acm_port_disconnect acm w =
     (let pn = client_port_num (gacm_ports w (unat (port_num acm))) in
      case transport acm of
        USB_GADGET_XPORT_TTY \<Rightarrow> (w\<lparr>xport_calls := xport_calls w @ [Gserial_disconnect]\<rparr>, 0)
      | USB_GADGET_XPORT_SMD \<Rightarrow> (w\<lparr>xport_calls := xport_calls w @ [Gsmd_disconnect pn]\<rparr>, 0)
      | USB_GADGET_XPORT_OTHER k \<Rightarrow> (w, - ENODEV))"

text \<open>\<^verbatim>\<open>acm_set_alt(f, intf, alt)\<close>. The parameters \<open>c_notify\<close>, \<open>c_in\<close> and \<open>c_out\<close>
  are what \<^verbatim>\<open>config_ep_by_speed\<close> returns for the three endpoints if it is called;
  \<^verbatim>\<open>||\<close> does not evaluate its right side when the left one is non-zero. The
  function does not read \<open>alt\<close>, and it drops what \<^verbatim>\<open>acm_port_disconnect\<close> and
  \<^verbatim>\<open>acm_port_connect\<close> return.\<close>

definition acm_set_alt ::
  "int \<Rightarrow> int \<Rightarrow> int \<Rightarrow> f_acm \<Rightarrow> nat \<Rightarrow> nat \<Rightarrow> world \<Rightarrow> f_acm \<times> world \<times> int" where
  "acm_set_alt c_notify c_in c_out acm intf alt w =
     (if intf = unat (ctrl_id acm) then
        (let n1 = (if driver_data (notify acm) then usb_ep_disable (notify acm) else notify acm);
             (n2, r) = (if \<not> desc n1 then config_ep_by_speed c_notify n1 else (n1, 0))
         in if r \<noteq> 0 then (acm\<lparr>notify := n2\<rparr>, w, - EINVAL)
            else (acm\<lparr>notify := (usb_ep_enable n2)\<lparr>driver_data := True\<rparr>\<rparr>, w, 0))
      else if intf = unat (data_id acm) then
        (let w1 = (if driver_data (port_in acm) then fst (acm_port_disconnect acm w) else w)
         in if \<not> desc (port_in acm) \<or> \<not> desc (port_out acm) then
              (let (i1, ri) = config_ep_by_speed c_in (port_in acm);
                   (o1, ro) = (if ri \<noteq> 0 then (port_out acm, ri)
                               else config_ep_by_speed c_out (port_out acm))
               in if ri \<noteq> 0 \<or> ro \<noteq> 0 then
                    (acm\<lparr>port_in := i1\<lparr>desc := False\<rparr>, port_out := o1\<lparr>desc := False\<rparr>\<rparr>,
                     w1, - EINVAL)
                  else (acm\<lparr>port_in := i1, port_out := o1\<rparr>,
                        fst (acm_port_connect (acm\<lparr>port_in := i1, port_out := o1\<rparr>) w1), 0))
            else (acm, fst (acm_port_connect acm w1), 0))
      else (acm, w, - EINVAL))"

text \<open>\<^verbatim>\<open>acm_disable(f)\<close>.\<close>

definition acm_disable :: "f_acm \<Rightarrow> world \<Rightarrow> f_acm \<times> world" where
  "acm_disable acm w =
     (acm\<lparr>notify := (usb_ep_disable (notify acm))\<lparr>driver_data := False\<rparr>\<rparr>,
      fst (acm_port_disconnect acm w))"

section \<open>Notifications\<close>

text \<open>\<^verbatim>\<open>sizeof(struct usb_cdc_notification)\<close>: \<^verbatim>\<open>bmRequestType\<close>, \<^verbatim>\<open>bNotificationType\<close>,
  \<^verbatim>\<open>wValue\<close>, \<^verbatim>\<open>wIndex\<close>, \<^verbatim>\<open>wLength\<close>, packed.\<close>

definition sizeof_notification :: nat where "sizeof_notification = 8"

text \<open>
  \<^verbatim>\<open>acm_cdc_notify(acm, type, value, data, length)\<close>. Its context demands a non-null
  \<^verbatim>\<open>acm->notify_req\<close>; \<open>req\<close> is that request, which the only caller has just tested.
  \<open>data\<close> holds the bytes at \<^verbatim>\<open>data\<close>. The fields of the header are written at their
  offsets in \<^verbatim>\<open>req->buf\<close>. With \<^verbatim>\<open>CONFIG_LGE_USB_G_ANDROID\<close> the payload goes through
  the zeroed \<^verbatim>\<open>noti_buf\<close> of \<^verbatim>\<open>GS_NOTIFY_MAXPACKET\<close> bytes, all of which are copied
  behind the header, and the request's length is \<^verbatim>\<open>GS_NOTIFY_MAXPACKET\<close>. The lock is
  released around \<^verbatim>\<open>usb_ep_queue\<close>, whose status is \<open>qst\<close>.
\<close>

definition acm_cdc_notify ::
  "int \<Rightarrow> f_acm \<Rightarrow> usb_request \<Rightarrow> u8 \<Rightarrow> u16 \<Rightarrow> u8 list \<Rightarrow> nat \<Rightarrow> world
     \<Rightarrow> f_acm \<times> world \<times> int" where
  "acm_cdc_notify qst acm req type val data len w =
     (let lge = config_lge w;
          acm1 = acm\<lparr>notify_req := None, pending := False\<rparr>;
          b1 = memcpy (buf req) 0 [USB_DIR_IN OR USB_TYPE_CLASS OR USB_RECIP_INTERFACE];
          b2 = memcpy b1 1 [type];
          b3 = memcpy b2 2 (le16 val);
          b4 = memcpy b3 4 (le16 (ucast (ctrl_id acm)));
          b5 = memcpy b4 6 (le16 (word_of_nat len));
          b6 = (if lge then
                  (let noti_buf = memcpy (\<lambda>i. 0) 0 (take len data)
                   in memcpy b5 sizeof_notification (bytes noti_buf (GS_NOTIFY_MAXPACKET lge)))
                else memcpy b5 sizeof_notification (take len data));
          req1 = req\<lparr>req_length := (if lge then GS_NOTIFY_MAXPACKET lge
                                     else sizeof_notification + len),
                     buf := b6\<rparr>;
          (w1, st) = usb_ep_queue_notify qst req1 w
      in if st < 0 then (acm1\<lparr>notify_req := Some req1\<rparr>, w1, st) else (acm1, w1, st))"

text \<open>\<^verbatim>\<open>acm_notify_serial_state(acm)\<close>; \<^verbatim>\<open>&acm->serial_state\<close> points to the two bytes
  of the \<^verbatim>\<open>u16\<close>.\<close>

definition acm_notify_serial_state :: "int \<Rightarrow> f_acm \<Rightarrow> world \<Rightarrow> f_acm \<times> world \<times> int" where
  "acm_notify_serial_state qst acm w =
     (case notify_req acm of
        Some req \<Rightarrow>
          acm_cdc_notify qst acm req USB_CDC_NOTIFY_SERIAL_STATE 0 (le16 (serial_state acm)) 2 w
      | None \<Rightarrow> (acm\<lparr>pending := True\<rparr>, w, 0))"

text \<open>\<^verbatim>\<open>acm_cdc_notify_complete(ep, req)\<close>, with \<^verbatim>\<open>acm = req->context\<close>; \<open>qst\<close> is the
  status of the \<^verbatim>\<open>usb_ep_queue\<close> call of the follow-up, if there is one.\<close>

definition acm_cdc_notify_complete :: "int \<Rightarrow> f_acm \<Rightarrow> usb_request \<Rightarrow> world \<Rightarrow> f_acm \<times> world" where
  "acm_cdc_notify_complete qst acm req w =
     (let doit = (if status req \<noteq> - ESHUTDOWN then pending acm else False);
          acm1 = acm\<lparr>notify_req := Some req\<rparr>
      in if doit then (let (acm2, w2, st) = acm_notify_serial_state qst acm1 w in (acm2, w2))
         else (acm1, w))"

text \<open>The callbacks of the transport: \<^verbatim>\<open>acm_connect\<close>, \<^verbatim>\<open>acm_disconnect\<close>,
  \<^verbatim>\<open>acm_send_break\<close>, \<^verbatim>\<open>acm_send_modem_ctrl_bits\<close> and, with
  \<^verbatim>\<open>CONFIG_LGE_USB_G_ANDROID\<close>, \<^verbatim>\<open>acm_send_carrier_detect\<close> and
  \<^verbatim>\<open>acm_send_ring_indicator\<close>. The assignment of an \<^verbatim>\<open>int\<close> to the \<^verbatim>\<open>u16\<close>
  \<^verbatim>\<open>serial_state\<close> keeps the low 16 bits. The last two return \<^verbatim>\<open>unsigned int\<close>: the
  \<^verbatim>\<open>int\<close> status of \<^verbatim>\<open>acm_notify_serial_state\<close> is converted, so that a negative
  status wraps around.\<close>

definition acm_connect :: "int \<Rightarrow> f_acm \<Rightarrow> world \<Rightarrow> f_acm \<times> world" where
  "acm_connect qst acm w =
     (let acm1 = acm\<lparr>serial_state := serial_state acm OR (ACM_CTRL_DSR OR ACM_CTRL_DCD)\<rparr>;
          (acm2, w2, st) = acm_notify_serial_state qst acm1 w
      in (acm2, w2))"

definition acm_disconnect :: "int \<Rightarrow> f_acm \<Rightarrow> world \<Rightarrow> f_acm \<times> world" where
  "acm_disconnect qst acm w =
     (let acm1 = acm\<lparr>serial_state := serial_state acm AND NOT (ACM_CTRL_DSR OR ACM_CTRL_DCD)\<rparr>;
          (acm2, w2, st) = acm_notify_serial_state qst acm1 w
      in (acm2, w2))"

definition acm_send_break :: "int \<Rightarrow> f_acm \<Rightarrow> int \<Rightarrow> world \<Rightarrow> f_acm \<times> world \<times> int" where
  "acm_send_break qst acm duration w =
     (let state0 = serial_state acm AND NOT ACM_CTRL_BRK;
          state1 = (if duration \<noteq> 0 then state0 OR ACM_CTRL_BRK else state0)
      in acm_notify_serial_state qst (acm\<lparr>serial_state := state1\<rparr>) w)"

definition acm_send_modem_ctrl_bits :: "int \<Rightarrow> f_acm \<Rightarrow> int \<Rightarrow> world \<Rightarrow> f_acm \<times> world \<times> int" where
  "acm_send_modem_ctrl_bits qst acm ctrl_bits w =
     acm_notify_serial_state qst (acm\<lparr>serial_state := word_of_int ctrl_bits\<rparr>) w"

definition acm_send_carrier_detect :: "int \<Rightarrow> f_acm \<Rightarrow> nat \<Rightarrow> world \<Rightarrow> f_acm \<times> world \<times> u32" where
  "acm_send_carrier_detect qst acm yes w =
     (let state0 = serial_state acm AND NOT ACM_CTRL_DCD;
          state1 = (if yes \<noteq> 0 then state0 OR ACM_CTRL_DCD else state0);
          (acm1, w1, st) = acm_notify_serial_state qst (acm\<lparr>serial_state := state1\<rparr>) w
      in (acm1, w1, word_of_int st))"

definition acm_send_ring_indicator :: "int \<Rightarrow> f_acm \<Rightarrow> nat \<Rightarrow> world \<Rightarrow> f_acm \<times> world \<times> u32" where
  "acm_send_ring_indicator qst acm yes w =
     (let state0 = serial_state acm AND NOT ACM_CTRL_RI;
          state1 = (if yes \<noteq> 0 then state0 OR ACM_CTRL_RI else state0);
          (acm1, w1, st) = acm_notify_serial_state qst (acm\<lparr>serial_state := state1\<rparr>) w
      in (acm1, w1, word_of_int st))"

subsection \<open>Sequences of calls\<close>

text \<open>
  What can happen to a bound port, one call at a time: the transport calls one of the
  callbacks above, or the controller completes the oldest transfer in flight on the
  notification endpoint with a status and calls \<^verbatim>\<open>req->complete\<close>, which
  \<^verbatim>\<open>acm_bind\<close> sets to \<^verbatim>\<open>acm_cdc_notify_complete\<close>. The last \<open>int\<close> of each event is
  the status that \<^verbatim>\<open>usb_ep_queue\<close> returns if the call reaches it.
\<close>

datatype event =
  Connect int
  | Disconnect int
  | Send_break int int
  | Send_modem_ctrl_bits int int
  | Send_carrier_detect nat int
  | Send_ring_indicator nat int
  | Complete int int

fun is_state_change :: "event \<Rightarrow> bool" where
  "is_state_change (Complete st qst) = False"
| "is_state_change ev = True"

text \<open>A step is \<open>None\<close> when the event cannot happen: a completion with no transfer in
  flight, or a callback that the build does not have.\<close>

fun step :: "event \<Rightarrow> f_acm \<times> world \<Rightarrow> (f_acm \<times> world) option" where
  "step (Connect qst) (acm, w) = Some (acm_connect qst acm w)"
| "step (Disconnect qst) (acm, w) = Some (acm_disconnect qst acm w)"
| "step (Send_break duration qst) (acm, w) =
     (let (acm1, w1, st) = acm_send_break qst acm duration w in Some (acm1, w1))"
| "step (Send_modem_ctrl_bits ctrl_bits qst) (acm, w) =
     (let (acm1, w1, st) = acm_send_modem_ctrl_bits qst acm ctrl_bits w in Some (acm1, w1))"
| "step (Send_carrier_detect yes qst) (acm, w) =
     (if config_lge w
      then (let (acm1, w1, st) = acm_send_carrier_detect qst acm yes w in Some (acm1, w1))
      else None)"
| "step (Send_ring_indicator yes qst) (acm, w) =
     (if config_lge w
      then (let (acm1, w1, st) = acm_send_ring_indicator qst acm yes w in Some (acm1, w1))
      else None)"
| "step (Complete st qst) (acm, w) =
     (case notify_queue w of
        [] \<Rightarrow> None
      | req # rest \<Rightarrow>
          Some (acm_cdc_notify_complete qst acm (req\<lparr>status := st\<rparr>) (w\<lparr>notify_queue := rest\<rparr>)))"

fun run :: "event list \<Rightarrow> f_acm \<times> world \<Rightarrow> (f_acm \<times> world) option" where
  "run [] s = Some s"
| "run (ev # evs) s = (case step ev s of None \<Rightarrow> None | Some s1 \<Rightarrow> run evs s1)"

text \<open>The slot \<^verbatim>\<open>notify_req\<close> is held by the driver and nothing is in flight, or it is
  checked out and exactly one transfer is in flight.\<close>

definition slot_xor_flight :: "f_acm \<times> world \<Rightarrow> bool" where
  "slot_xor_flight s =
     (case notify_req (fst s) of
        Some req \<Rightarrow> notify_queue (snd s) = []
      | None \<Rightarrow> length (notify_queue (snd s)) = 1)"

text \<open>The header of a SerialState notification as the CDC specification describes it,
  for the control interface \<open>ifc\<close>: the request type (device to host, class,
  interface), the notification code \<open>0x20\<close>, the value 0, the index \<open>ifc\<close> and the
  length 2 of the payload, the three 16-bit fields little-endian.\<close>

definition serial_state_header :: "u8 \<Rightarrow> u8 list" where
  "serial_state_header ifc =
     [USB_DIR_IN OR USB_TYPE_CLASS OR USB_RECIP_INTERFACE, 0x20] @ le16 0 @ le16 (ucast ifc) @ le16 2"

subsection \<open>A bound port\<close>

text \<open>A port as \<^verbatim>\<open>acm_alloc_func\<close> (\<^verbatim>\<open>kzalloc\<close>) and \<^verbatim>\<open>acm_bind\<close> leave it when the
  interfaces get the ids 0 and 1 and the configuration is added: the notification request is
  allocated with its completion routine, nothing is in flight.\<close>

definition idle_ep :: usb_ep where
  "idle_ep = \<lparr>driver_data = False, desc = False, enabled = False, halted = False\<rparr>"

definition fresh_req :: "completion \<Rightarrow> usb_request" where
  "fresh_req c =
     \<lparr>buf = (\<lambda>i. 0), req_length = 0, req_zero = False, req_complete = c, status = 0,
      actual = 0\<rparr>"

definition bound_acm :: "transport_type \<Rightarrow> f_acm" where
  "bound_acm t =
     \<lparr>port_in = idle_ep, port_out = idle_ep, notify_modem = False,
      ctrl_id = 0, data_id = 1, port_num = 0, transport = t, pending = False,
      notify = idle_ep, notify_req = Some (fresh_req Acm_cdc_notify_complete),
      port_line_coding = \<lparr>dwDTERate = 0, bCharFormat = 0, bParityType = 0, bDataBits = 0\<rparr>,
      port_handshake_bits = 0, serial_state = 0\<rparr>"

definition idle_world :: "bool \<Rightarrow> transport_type \<Rightarrow> world" where
  "idle_world lge t =
     \<lparr>config_lge = lge,
      gacm_ports = (\<lambda>i. \<lparr>info_transport = t, info_port_num = i, client_port_num = 0\<rparr>),
      cdev_req = fresh_req Composite_setup_complete,
      ep0 = \<lparr>driver_data = False, desc = False, enabled = True, halted = False\<rparr>,
      notify_queue = [], notify_submitted = [], ep0_submitted = [], xport_calls = []\<rparr>"

section \<open>Theorems\<close>

subsection \<open>Bytes\<close>

lemma le16_ucast8: "le16 (ucast (x::u8)) = [x, 0]"
  unfolding le16_def
  apply simp
  apply (rule conjI)
   apply (rule bit_word_eqI; simp add: bit_simps)
  apply (rule bit_word_eqI; auto simp add: bit_simps dest: bit_imp_le_length)
  done

lemma le16_2: "le16 2 = [2, 0]"
  by (simp add: le16_def)

lemma le16_0: "le16 0 = [0, 0]"
  by (simp add: le16_def)

lemma request_type_byte: "USB_DIR_IN OR USB_TYPE_CLASS OR USB_RECIP_INTERFACE = (0xA1 :: u8)"
  by (simp add: USB_DIR_IN_def USB_TYPE_CLASS_def USB_RECIP_INTERFACE_def)

lemma serial_state_header_bytes: "serial_state_header ifc = [0xA1, 0x20, 0, 0, ifc, 0, 2, 0]"
  by (simp add: serial_state_header_def request_type_byte le16_0 le16_2 le16_ucast8)

lemma bytes_10: "bytes m 10 = [m 0, m 1, m 2, m 3, m 4, m 5, m 6, m 7, m 8, m 9]"
proof -
  have "[0..<10] = [0, 1, 2, 3, 4, 5, 6, 7, 8, 9::nat]"
    by (simp add: upt_rec)
  then show ?thesis by (simp add: bytes_def)
qed

lemma bytes_16:
  "bytes m 16 =
     [m 0, m 1, m 2, m 3, m 4, m 5, m 6, m 7, m 8, m 9, m 10, m 11, m 12, m 13, m 14, m 15]"
proof -
  have "[0..<16] = [0, 1, 2, 3, 4, 5, 6, 7, 8, 9, 10, 11, 12, 13, 14, 15::nat]"
    by (simp add: upt_rec)
  then show ?thesis by (simp add: bytes_def)
qed

lemma bytes_serial_state:
  "bytes (memcpy (memcpy (memcpy (memcpy (memcpy (memcpy m 0 [a]) (Suc 0) [b]) 2 [c0, c1])
            4 [d0, d1]) 6 [e0, e1]) 8 [f0, f1]) 10
   = [a, b, c0, c1, d0, d1, e0, e1, f0, f1]"
  by (simp add: bytes_10 memcpy_def)

lemma bytes_serial_state_lge:
  "bytes (memcpy (memcpy (memcpy (memcpy (memcpy (memcpy m 0 [a]) (Suc 0) [b]) 2 [c0, c1])
            4 [d0, d1]) 6 [e0, e1]) 8 (bytes (memcpy (\<lambda>i. 0) 0 [f0, f1]) 16)) 16
   = [a, b, c0, c1, d0, d1, e0, e1, f0, f1, 0, 0, 0, 0, 0, 0]"
  by (simp add: bytes_16 memcpy_def)

lemma bytes_memcpy_0: "bytes (memcpy m 0 xs) (length xs) = xs"
  by (rule nth_equalityI) (simp_all add: bytes_def memcpy_def)

lemma le32_roundtrip: "le32 (le32_of b0 b1 b2 b3) = [b0, b1, b2, b3]"
  unfolding le32_def le32_of_def
  apply simp
  apply (intro conjI)
     apply (rule bit_word_eqI; auto simp add: bit_simps dest: bit_imp_le_length)
     apply (rule bit_word_eqI; auto simp add: bit_simps dest: bit_imp_le_length)
     apply (rule bit_word_eqI; auto simp add: bit_simps dest: bit_imp_le_length)
     apply (rule bit_word_eqI; auto simp add: bit_simps dest: bit_imp_le_length)
  done

lemma line_coding_roundtrip: "line_coding_bytes (line_coding_at m) = bytes m 7"
proof -
  have "[0..<7] = [0, 1, 2, 3, 4, 5, 6::nat]" by (simp add: upt_rec)
  then show ?thesis
    by (simp add: line_coding_bytes_def line_coding_at_def le32_roundtrip bytes_def)
qed

lemma get_selector:
  "req_selector (USB_DIR_IN OR USB_TYPE_CLASS OR USB_RECIP_INTERFACE) USB_CDC_REQ_GET_LINE_CODING
     \<noteq> req_selector (USB_DIR_OUT OR USB_TYPE_CLASS OR USB_RECIP_INTERFACE)
          USB_CDC_REQ_SET_LINE_CODING"
  by (simp add: req_selector_def USB_DIR_IN_def USB_DIR_OUT_def USB_TYPE_CLASS_def
      USB_RECIP_INTERFACE_def USB_CDC_REQ_GET_LINE_CODING_def USB_CDC_REQ_SET_LINE_CODING_def)

lemma length_line_coding_bytes: "length (line_coding_bytes lc) = 7"
  by (simp add: line_coding_bytes_def le32_def)

text \<open>GET\_LINE\_CODING for the control interface: the response that goes to
  \<^verbatim>\<open>usb_ep_queue\<close> on endpoint 0, and what \<^verbatim>\<open>acm_setup\<close> returns.\<close>

lemma acm_setup_get_line_coding:
  assumes "bRequestType ctrl = USB_DIR_IN OR USB_TYPE_CLASS OR USB_RECIP_INTERFACE"
    and "bRequest ctrl = USB_CDC_REQ_GET_LINE_CODING"
    and "uint (wIndex ctrl) = uint (ctrl_id acm)"
  shows "\<exists>r. acm_setup qst acm ctrl w =
           (acm, w\<lparr>cdev_req := r, ep0_submitted := ep0_submitted w @ [(r, qst)]\<rparr>, qst) \<and>
         req_length r = min (unat (wLength ctrl)) 7 \<and>
         wire r = take (min (unat (wLength ctrl)) 7) (line_coding_bytes (port_line_coding acm))"
proof -
  define n where "n = min (unat (wLength ctrl)) 7"
  define r where "r = (cdev_req w)
     \<lparr>buf := memcpy (buf (cdev_req w)) 0 (take n (line_coding_bytes (port_line_coding acm))),
      req_zero := False, req_length := n\<rparr>"
  have len: "length (take n (line_coding_bytes (port_line_coding acm))) = n"
    by (simp add: n_def length_line_coding_bytes)
  have "bytes (memcpy (buf (cdev_req w)) 0 (take n (line_coding_bytes (port_line_coding acm)))) n
          = take n (line_coding_bytes (port_line_coding acm))"
    using bytes_memcpy_0 [of "buf (cdev_req w)" "take n (line_coding_bytes (port_line_coding acm))"]
    unfolding len .
  then have w: "wire r = take n (line_coding_bytes (port_line_coding acm))"
    by (simp add: wire_def r_def)
  have e: "acm_setup qst acm ctrl w =
           (acm, w\<lparr>cdev_req := r, ep0_submitted := ep0_submitted w @ [(r, qst)]\<rparr>, qst)"
    using assms get_selector
    by (simp add: acm_setup_def Let_def usb_ep_queue_ep0_def sizeof_line_coding_def r_def n_def)
  have "req_length r = n" by (simp add: r_def)
  with w e show ?thesis unfolding n_def by blast
qed

subsection \<open>Activation of the data interface\<close>

text \<open>When a data endpoint has no descriptor yet and \<^verbatim>\<open>config_ep_by_speed\<close> fails for
  one of the two, \<^verbatim>\<open>acm_set_alt\<close> clears both descriptor pointers and returns
  \<^verbatim>\<open>-EINVAL\<close>; the transport is not connected.\<close>

lemma acm_set_alt_bind_failure:
  assumes "intf = unat (data_id acm)" and "intf \<noteq> unat (ctrl_id acm)"
    and "\<not> desc (port_in acm) \<or> \<not> desc (port_out acm)"
    and "c_in \<noteq> 0 \<or> c_out \<noteq> 0"
  shows "\<exists>acm1 w1. acm_set_alt c_notify c_in c_out acm intf alt w = (acm1, w1, - EINVAL) \<and>
           \<not> desc (port_in acm1) \<and> \<not> desc (port_out acm1) \<and>
           xport_calls w1 = xport_calls (if driver_data (port_in acm) then fst (acm_port_disconnect acm w) else w)"
  using assms
  by (auto simp: acm_set_alt_def Let_def config_ep_by_speed_def split: prod.splits)

subsection \<open>What one call of \<^verbatim>\<open>acm_notify_serial_state\<close> does\<close>

text \<open>With the slot free, the request is filled and handed to \<^verbatim>\<open>usb_ep_queue\<close> once;
  it is in flight when the controller accepts it, and back in the slot when not.\<close>

lemma acm_notify_serial_state_free:
  assumes "notify_req acm = Some req"
  shows "\<exists>r. wire r = serial_state_header (ctrl_id acm) @ le16 (serial_state acm) @
                 (if config_lge w then replicate 6 0 else []) \<and>
     acm_notify_serial_state qst acm w =
       (acm\<lparr>notify_req := (if qst < 0 then Some r else None), pending := False\<rparr>,
        w\<lparr>notify_queue := (if qst < 0 then notify_queue w else notify_queue w @ [r]),
          notify_submitted := notify_submitted w @ [(r, qst)]\<rparr>, qst)"
proof -
  obtain f0 f1 where f: "le16 (serial_state acm) = [f0, f1]"
    by (auto simp: le16_def)
  have six: "replicate 6 (0::u8) = [0, 0, 0, 0, 0, 0]"
    by (simp add: numeral_eq_Suc)
  define hdr where
    "hdr = memcpy (memcpy (memcpy (memcpy (memcpy (buf req) 0 [161]) (Suc 0) [32]) 2 [0, 0])
             4 [ctrl_id acm, 0]) 6 [2, 0]"
  define r where "r = (if config_lge w
     then req\<lparr>req_length := 16, buf := memcpy hdr 8 (bytes (memcpy (\<lambda>i. 0) 0 [f0, f1]) 16)\<rparr>
     else req\<lparr>req_length := 10, buf := memcpy hdr 8 [f0, f1]\<rparr>)"
  have w: "wire r = serial_state_header (ctrl_id acm) @ le16 (serial_state acm) @
                 (if config_lge w then replicate 6 0 else [])"
    by (simp add: r_def hdr_def wire_def f six serial_state_header_bytes bytes_serial_state
        bytes_serial_state_lge)
  have e: "acm_notify_serial_state qst acm w =
       (acm\<lparr>notify_req := (if qst < 0 then Some r else None), pending := False\<rparr>,
        w\<lparr>notify_queue := (if qst < 0 then notify_queue w else notify_queue w @ [r]),
          notify_submitted := notify_submitted w @ [(r, qst)]\<rparr>, qst)"
    using assms
    by (simp add: acm_notify_serial_state_def acm_cdc_notify_def usb_ep_queue_notify_def Let_def
       sizeof_notification_def GS_NOTIFY_MAXPACKET_def request_type_byte le16_ucast8 f le16_0
       USB_CDC_NOTIFY_SERIAL_STATE_def le16_2 r_def hdr_def)
  from w e show ?thesis by blast
qed

lemma acm_notify_serial_state_busy:
  "notify_req acm = None \<Longrightarrow>
   acm_notify_serial_state qst acm w = (acm\<lparr>pending := True\<rparr>, w, 0)"
  by (simp add: acm_notify_serial_state_def)

lemma acm_cdc_notify_shape:
  "\<exists>r. acm_cdc_notify qst acm req type val data len w =
         (acm\<lparr>notify_req := (if qst < 0 then Some r else None), pending := False\<rparr>,
          w\<lparr>notify_queue := (if qst < 0 then notify_queue w else notify_queue w @ [r]),
            notify_submitted := notify_submitted w @ [(r, qst)]\<rparr>, qst)"
proof -
  define r where
    "r = fst (last (notify_submitted (fst (snd (acm_cdc_notify qst acm req type val data len w)))))"
  show ?thesis
    by (rule exI [of _ r])
       (simp add: r_def acm_cdc_notify_def usb_ep_queue_notify_def Let_def)
qed

subsection \<open>The slot and the transfer in flight\<close>

text \<open>Every callback of the transport changes \<^verbatim>\<open>serial_state\<close> and then runs
  \<^verbatim>\<open>acm_notify_serial_state\<close>.\<close>

lemma step_state_change:
  assumes "is_state_change ev" and "step ev (acm, w) = Some (acm1, w1)"
  shows "\<exists>x q st. acm_notify_serial_state q (acm\<lparr>serial_state := x\<rparr>) w = (acm1, w1, st)"
proof (cases ev)
  case (Connect q)
  with assms(2) show ?thesis
    by (auto simp: acm_connect_def Let_def split: prod.splits)
next
  case (Disconnect q)
  with assms(2) show ?thesis
    by (auto simp: acm_disconnect_def Let_def split: prod.splits)
next
  case (Send_break d q)
  with assms(2) show ?thesis
    by (auto simp: acm_send_break_def Let_def split: prod.splits)
next
  case (Send_modem_ctrl_bits b q)
  with assms(2) show ?thesis
    by (auto simp: acm_send_modem_ctrl_bits_def Let_def split: prod.splits)
next
  case (Send_carrier_detect y q)
  with assms(2) show ?thesis
    by (auto simp: acm_send_carrier_detect_def Let_def split: prod.splits if_splits)
next
  case (Send_ring_indicator y q)
  with assms(2) show ?thesis
    by (auto simp: acm_send_ring_indicator_def Let_def split: prod.splits if_splits)
next
  case (Complete st q)
  with assms(1) show ?thesis by simp
qed

lemma notify_keeps_slot_xor_flight:
  assumes "slot_xor_flight (acm, w)" and "acm_notify_serial_state q acm w = (acm1, w1, st)"
  shows "slot_xor_flight (acm1, w1)"
proof (cases "notify_req acm")
  case None
  with assms show ?thesis
    by (auto simp: acm_notify_serial_state_busy slot_xor_flight_def)
next
  case (Some req)
  from acm_notify_serial_state_free [OF Some, of w q] assms show ?thesis
    by (auto simp: slot_xor_flight_def Some)
qed

lemma complete_keeps_slot_xor_flight:
  assumes "slot_xor_flight (acm, w)" and "notify_queue w = req # rest"
  shows "slot_xor_flight (acm_cdc_notify_complete q acm (req\<lparr>status := st\<rparr>) (w\<lparr>notify_queue := rest\<rparr>))"
proof -
  from assms have rest: "rest = []"
    by (auto simp: slot_xor_flight_def split: option.splits)
  let ?acm = "acm\<lparr>notify_req := Some (req\<lparr>status := st\<rparr>)\<rparr>"
  let ?w = "w\<lparr>notify_queue := rest\<rparr>"
  have inv: "slot_xor_flight (?acm, ?w)"
    by (simp add: slot_xor_flight_def rest)
  show ?thesis
  proof (cases "status (req\<lparr>status := st\<rparr>) \<noteq> - ESHUTDOWN \<and> pending acm")
    case True
    obtain acm2 w2 st2 where n: "acm_notify_serial_state q ?acm ?w = (acm2, w2, st2)"
      by (cases "acm_notify_serial_state q ?acm ?w") auto
    from notify_keeps_slot_xor_flight [OF inv n] True n show ?thesis
      by (simp add: acm_cdc_notify_complete_def)
  next
    case False
    with inv show ?thesis
      by (auto simp: acm_cdc_notify_complete_def)
  qed
qed

lemma step_keeps_slot_xor_flight:
  assumes "slot_xor_flight s" and "step ev s = Some s1"
  shows "slot_xor_flight s1"
proof (cases "is_state_change ev")
  case True
  obtain acm w acm1 w1 where s: "s = (acm, w)" "s1 = (acm1, w1)"
    by (cases s, cases s1) auto
  from step_state_change [OF True, of acm w acm1 w1] assms(2) s
  obtain x q st where n: "acm_notify_serial_state q (acm\<lparr>serial_state := x\<rparr>) w = (acm1, w1, st)"
    by auto
  from assms(1) s have "slot_xor_flight (acm\<lparr>serial_state := x\<rparr>, w)"
    by (simp add: slot_xor_flight_def split: option.splits)
  from notify_keeps_slot_xor_flight [OF this n] s show ?thesis by simp
next
  case False
  then obtain st q where ev: "ev = Complete st q"
    by (cases ev) auto
  obtain acm w where s: "s = (acm, w)"
    by (cases s) auto
  from assms(2) ev s obtain req rest where q: "notify_queue w = req # rest"
    by (cases "notify_queue w") auto
  from complete_keeps_slot_xor_flight [OF assms(1) [unfolded s] q, of q st] assms(2) ev s q
  show ?thesis by simp
qed

lemma run_append:
  "run (xs @ ys) s = (case run xs s of None \<Rightarrow> None | Some s' \<Rightarrow> run ys s')"
  by (induction xs arbitrary: s) (auto split: option.splits)

text \<open>The completion routine with and without the follow-up.\<close>

lemma complete_follow_up:
  assumes "status req \<noteq> - ESHUTDOWN" and "pending acm"
  shows "\<exists>r. wire r = serial_state_header (ctrl_id acm) @ le16 (serial_state acm) @
                      (if config_lge w then replicate 6 0 else []) \<and>
           acm_cdc_notify_complete qst acm req w =
             (acm\<lparr>notify_req := (if qst < 0 then Some r else None), pending := False\<rparr>,
              w\<lparr>notify_queue := (if qst < 0 then notify_queue w else notify_queue w @ [r]),
                notify_submitted := notify_submitted w @ [(r, qst)]\<rparr>)"
proof -
  obtain r where
    "wire r = serial_state_header (ctrl_id acm) @ le16 (serial_state acm) @
               (if config_lge w then replicate 6 0 else [])"
    and "acm_notify_serial_state qst (acm\<lparr>notify_req := Some req\<rparr>) w =
       (acm\<lparr>notify_req := (if qst < 0 then Some r else None), pending := False\<rparr>,
        w\<lparr>notify_queue := (if qst < 0 then notify_queue w else notify_queue w @ [r]),
          notify_submitted := notify_submitted w @ [(r, qst)]\<rparr>, qst)"
    using acm_notify_serial_state_free [of "acm\<lparr>notify_req := Some req\<rparr>" req w qst]
    by auto
  with assms show ?thesis
    by (auto simp: acm_cdc_notify_complete_def)
qed

lemma complete_no_follow_up:
  "status req = - ESHUTDOWN \<or> \<not> pending acm \<Longrightarrow>
   acm_cdc_notify_complete qst acm req w = (acm\<lparr>notify_req := Some req\<rparr>, w)"
  by (auto simp: acm_cdc_notify_complete_def)

text \<open>While the slot is checked out, a callback of the transport only changes
  \<^verbatim>\<open>serial_state\<close> and sets the pending flag.\<close>

lemma step_state_change_busy:
  assumes "is_state_change ev" and "notify_req acm = None"
    and "step ev (acm, w) = Some (acm1, w1)"
  shows "w1 = w \<and> notify_req acm1 = None \<and> pending acm1 \<and> ctrl_id acm1 = ctrl_id acm"
proof -
  from step_state_change [OF assms(1) assms(3)]
  obtain x q st where "acm_notify_serial_state q (acm\<lparr>serial_state := x\<rparr>) w = (acm1, w1, st)"
    by blast
  with assms(2) show ?thesis
    by (auto simp: acm_notify_serial_state_busy)
qed

lemma run_state_changes_busy:
  assumes "list_all is_state_change evs" and "notify_req acm = None"
    and "run evs (acm, w) = Some (acm1, w1)"
  shows "w1 = w \<and> notify_req acm1 = None \<and> ctrl_id acm1 = ctrl_id acm \<and>
         (evs \<noteq> [] \<or> pending acm \<longrightarrow> pending acm1)"
  using assms
proof (induction evs arbitrary: acm)
  case Nil
  then show ?case by simp
next
  case (Cons ev evs)
  from Cons.prems(3) obtain acm' w' where
    s: "step ev (acm, w) = Some (acm', w')" and r: "run evs (acm', w') = Some (acm1, w1)"
    by (auto split: option.splits)
  from Cons.prems(1) have ev: "is_state_change ev" and evs: "list_all is_state_change evs"
    by simp_all
  from step_state_change_busy [OF ev Cons.prems(2) s]
  have b: "w' = w" "notify_req acm' = None" "pending acm'" "ctrl_id acm' = ctrl_id acm"
    by simp_all
  from Cons.IH [OF evs b(2) r [unfolded b(1)]] b show ?case
    by simp
qed

lemma step_send_modem_ctrl_bits:
  "step (Send_modem_ctrl_bits b q) (acm, w) = Some (acm1, w1) \<Longrightarrow>
   serial_state acm1 = word_of_int b"
proof (cases "notify_req acm")
  case None
  assume "step (Send_modem_ctrl_bits b q) (acm, w) = Some (acm1, w1)"
  with None show ?thesis
    by (auto simp: acm_send_modem_ctrl_bits_def acm_notify_serial_state_busy)
next
  case (Some req)
  assume a: "step (Send_modem_ctrl_bits b q) (acm, w) = Some (acm1, w1)"
  from Some have "notify_req (acm\<lparr>serial_state := word_of_int b\<rparr>) = Some req"
    by simp
  from acm_notify_serial_state_free [OF this, of w q] a show ?thesis
    by (auto simp: acm_send_modem_ctrl_bits_def)
qed

text \<open>\<^verbatim>\<open>acm_connect\<close> and \<^verbatim>\<open>acm_disconnect\<close> with the slot free and checked
  out.\<close>

lemma acm_connect_free:
  assumes "notify_req acm = Some req"
  shows "\<exists>r. wire r = serial_state_header (ctrl_id acm) @
                  le16 (serial_state acm OR (ACM_CTRL_DSR OR ACM_CTRL_DCD)) @
                  (if config_lge w then replicate 6 0 else []) \<and>
     acm_connect qst acm w =
       (acm\<lparr>serial_state := serial_state acm OR (ACM_CTRL_DSR OR ACM_CTRL_DCD),
            notify_req := (if qst < 0 then Some r else None), pending := False\<rparr>,
        w\<lparr>notify_queue := (if qst < 0 then notify_queue w else notify_queue w @ [r]),
          notify_submitted := notify_submitted w @ [(r, qst)]\<rparr>)"
proof -
  let ?a = "acm\<lparr>serial_state := serial_state acm OR (ACM_CTRL_DSR OR ACM_CTRL_DCD)\<rparr>"
  from assms have "notify_req ?a = Some req" by simp
  from acm_notify_serial_state_free [OF this, of w qst] show ?thesis
    by (auto simp: acm_connect_def)
qed

lemma acm_disconnect_free:
  assumes "notify_req acm = Some req"
  shows "\<exists>r. wire r = serial_state_header (ctrl_id acm) @
                  le16 (serial_state acm AND NOT (ACM_CTRL_DSR OR ACM_CTRL_DCD)) @
                  (if config_lge w then replicate 6 0 else []) \<and>
     acm_disconnect qst acm w =
       (acm\<lparr>serial_state := serial_state acm AND NOT (ACM_CTRL_DSR OR ACM_CTRL_DCD),
            notify_req := (if qst < 0 then Some r else None), pending := False\<rparr>,
        w\<lparr>notify_queue := (if qst < 0 then notify_queue w else notify_queue w @ [r]),
          notify_submitted := notify_submitted w @ [(r, qst)]\<rparr>)"
proof -
  let ?a = "acm\<lparr>serial_state := serial_state acm AND NOT (ACM_CTRL_DSR OR ACM_CTRL_DCD)\<rparr>"
  from assms have "notify_req ?a = Some req" by simp
  from acm_notify_serial_state_free [OF this, of w qst] show ?thesis
    by (auto simp: acm_disconnect_def)
qed

lemma acm_disconnect_busy:
  "notify_req acm = None \<Longrightarrow>
   acm_disconnect qst acm w =
     (acm\<lparr>serial_state := serial_state acm AND NOT (ACM_CTRL_DSR OR ACM_CTRL_DCD),
          pending := True\<rparr>, w)"
  by (simp add: acm_disconnect_def acm_notify_serial_state_busy)

lemma acm_connect_busy:
  "notify_req acm = None \<Longrightarrow>
   acm_connect qst acm w =
     (acm\<lparr>serial_state := serial_state acm OR (ACM_CTRL_DSR OR ACM_CTRL_DCD),
          pending := True\<rparr>, w)"
  by (simp add: acm_connect_def acm_notify_serial_state_busy)

text \<open>Setting and clearing a group of bits.\<close>

lemma dsr_dcd_bits:
  fixes s :: u16
  shows "(s OR b) AND b = b" and "(s OR b) AND NOT b = s AND NOT b"
    and "(s AND NOT b) AND b = 0" and "(s AND NOT b) AND NOT b = s AND NOT b"
  by (rule bit_word_eqI; auto simp: bit_simps)+

subsection \<open>The claims\<close>

text \<open>
  C1. At most one notification transfer is in flight. For every sequence of callbacks of
  the transport (each of which runs \<^verbatim>\<open>acm_notify_serial_state\<close>) and completions of
  the transfer in flight, from a state in which the slot \<^verbatim>\<open>notify_req\<close> is held and
  nothing is in flight, or the slot is checked out and one transfer is in flight, the
  state reached is of that kind again: never more than one transfer in flight, and the
  slot is held exactly when none is.
\<close>

theorem at_most_one_notification_in_flight:
  "slot_xor_flight s \<Longrightarrow> run evs s = Some s1 \<Longrightarrow>
     slot_xor_flight s1 \<and> length (notify_queue (snd s1)) \<le> 1 \<and>
     (notify_req (fst s1) \<noteq> None \<longleftrightarrow> notify_queue (snd s1) = [])"
proof (induction evs arbitrary: s)
  case Nil
  then show ?case
    by (auto simp: slot_xor_flight_def split: option.splits)
next
  case (Cons ev evs)
  from Cons.prems(2) obtain s' where s': "step ev s = Some s'" "run evs s' = Some s1"
    by (auto split: option.splits)
  from step_keeps_slot_xor_flight [OF Cons.prems(1) s'(1)] s'(2) show ?case
    by (rule Cons.IH)
qed


theorem at_most_one_notification_in_flight_witness:
  "slot_xor_flight (bound_acm USB_GADGET_XPORT_TTY, idle_world False USB_GADGET_XPORT_TTY) \<and>
   (\<exists>s1. run [Connect 0, Disconnect 0, Complete 0 0, Send_break 1 (- 19), Complete (- 108) 0]
            (bound_acm USB_GADGET_XPORT_TTY, idle_world False USB_GADGET_XPORT_TTY) = Some s1 \<and>
         slot_xor_flight s1 \<and> length (notify_queue (snd s1)) \<le> 1)"
proof -
  let ?s = "(bound_acm USB_GADGET_XPORT_TTY, idle_world False USB_GADGET_XPORT_TTY)"
  let ?evs = "[Connect 0, Disconnect 0, Complete 0 0, Send_break 1 (- 19), Complete (- 108) 0]"
  have inv: "slot_xor_flight ?s"
    by (simp add: slot_xor_flight_def bound_acm_def idle_world_def)
  have "\<exists>s1. run ?evs ?s = Some s1"
    by (simp add: acm_connect_def acm_disconnect_def acm_send_break_def
        acm_notify_serial_state_def acm_cdc_notify_def usb_ep_queue_notify_def
        acm_cdc_notify_complete_def Let_def bound_acm_def idle_world_def ESHUTDOWN_def)
  then obtain s1 where r: "run ?evs ?s = Some s1" ..
  from at_most_one_notification_in_flight [OF inv r] inv r show ?thesis
    by blast
qed

text \<open>
  C2. Notifications are coalesced. While a transfer is in flight (the slot is checked
  out), \<^verbatim>\<open>acm_notify_serial_state\<close> sets the pending flag, submits nothing and returns
  0. After any non-empty sequence of state changes in that situation nothing more has
  been submitted and the flag is set; if the last change was
  \<^verbatim>\<open>acm_send_modem_ctrl_bits\<close> with the value \<open>s3\<close>, the serial state is \<open>s3\<close>
  (its low 16 bits). When the transfer then completes with a status other than
  \<^verbatim>\<open>-ESHUTDOWN\<close>, \<^verbatim>\<open>usb_ep_queue\<close> is called exactly once, with a notification whose
  payload is the serial state of that moment; it is then the one transfer in flight
  (unless the controller refuses it), and the flag is clear.
\<close>

theorem notifications_are_coalesced:
  assumes "notify_req acm = None" and "notify_queue w = [r0]"
    and "evs \<noteq> []" and "list_all is_state_change evs"
    and "run evs (acm, w) = Some (acm1, w1)"
    and "st \<noteq> - ESHUTDOWN"
  shows "acm_notify_serial_state q0 acm w = (acm\<lparr>pending := True\<rparr>, w, 0) \<and>
         w1 = w \<and> notify_req acm1 = None \<and> pending acm1 \<and>
         (\<forall>s3 q3. last evs = Send_modem_ctrl_bits s3 q3 \<longrightarrow> serial_state acm1 = word_of_int s3) \<and>
         (\<exists>r acm2 w2.
            step (Complete st q) (acm1, w1) = Some (acm2, w2) \<and>
            notify_submitted w2 = notify_submitted w @ [(r, q)] \<and>
            notify_queue w2 = (if q < 0 then [] else [r]) \<and>
            wire r = serial_state_header (ctrl_id acm) @ le16 (serial_state acm1) @
                       (if config_lge w then replicate 6 0 else []) \<and>
            \<not> pending acm2)"
proof -
  from run_state_changes_busy [OF assms(4) assms(1) assms(5)] assms(3)
  have b: "w1 = w" "notify_req acm1 = None" "ctrl_id acm1 = ctrl_id acm" "pending acm1"
    by simp_all
  have l: "\<forall>s3 q3. last evs = Send_modem_ctrl_bits s3 q3 \<longrightarrow> serial_state acm1 = word_of_int s3"
  proof (intro allI impI)
    fix s3 q3
    assume "last evs = Send_modem_ctrl_bits s3 q3"
    with assms(3) have "evs = butlast evs @ [Send_modem_ctrl_bits s3 q3]"
      by (metis append_butlast_last_id)
    with assms(5) have "run (butlast evs @ [Send_modem_ctrl_bits s3 q3]) (acm, w) = Some (acm1, w1)"
      by metis
    then obtain s' where "run [Send_modem_ctrl_bits s3 q3] s' = Some (acm1, w1)"
      unfolding run_append by (auto split: option.splits)
    then have "step (Send_modem_ctrl_bits s3 q3) s' = Some (acm1, w1)"
      unfolding run.simps by (auto split: option.splits)
    then obtain a b where "step (Send_modem_ctrl_bits s3 q3) (a, b) = Some (acm1, w1)"
      by (cases s') blast
    then show "serial_state acm1 = word_of_int s3"
      by (rule step_send_modem_ctrl_bits)
  qed
  have "status (r0\<lparr>status := st\<rparr>) \<noteq> - ESHUTDOWN"
    using assms(6) by simp
  from complete_follow_up [OF this b(4), of "w\<lparr>notify_queue := []\<rparr>" q]
  obtain r where
    r: "wire r = serial_state_header (ctrl_id acm1) @ le16 (serial_state acm1) @
                      (if config_lge w then replicate 6 0 else [])"
    and c: "acm_cdc_notify_complete q acm1 (r0\<lparr>status := st\<rparr>) (w\<lparr>notify_queue := []\<rparr>) =
             (acm1\<lparr>notify_req := (if q < 0 then Some r else None), pending := False\<rparr>,
              w\<lparr>notify_queue := (if q < 0 then [] else [r]),
                notify_submitted := notify_submitted w @ [(r, q)]\<rparr>)"
    by auto
  have "\<exists>r acm2 w2.
            step (Complete st q) (acm1, w1) = Some (acm2, w2) \<and>
            notify_submitted w2 = notify_submitted w @ [(r, q)] \<and>
            notify_queue w2 = (if q < 0 then [] else [r]) \<and>
            wire r = serial_state_header (ctrl_id acm) @ le16 (serial_state acm1) @
                       (if config_lge w then replicate 6 0 else []) \<and>
            \<not> pending acm2"
    using r c b assms(2) by auto
  with b l assms(1) show ?thesis
    by (simp add: acm_notify_serial_state_busy)
qed


theorem notifications_are_coalesced_witness:
  "run [Send_modem_ctrl_bits 1 0, Send_modem_ctrl_bits 2 0, Send_modem_ctrl_bits 3 0]
     ((bound_acm USB_GADGET_XPORT_TTY)\<lparr>notify_req := None\<rparr>,
      (idle_world False USB_GADGET_XPORT_TTY)\<lparr>notify_queue := [fresh_req Acm_cdc_notify_complete]\<rparr>) =
   Some ((bound_acm USB_GADGET_XPORT_TTY)\<lparr>notify_req := None, serial_state := 3, pending := True\<rparr>,
      (idle_world False USB_GADGET_XPORT_TTY)\<lparr>notify_queue := [fresh_req Acm_cdc_notify_complete]\<rparr>) \<and>
   (\<exists>r acm2 w2.
      step (Complete 0 0)
        ((bound_acm USB_GADGET_XPORT_TTY)\<lparr>notify_req := None, serial_state := 3, pending := True\<rparr>,
         (idle_world False USB_GADGET_XPORT_TTY)\<lparr>notify_queue := [fresh_req Acm_cdc_notify_complete]\<rparr>) =
        Some (acm2, w2) \<and>
      notify_submitted w2 = [(r, 0)] \<and> notify_queue w2 = [r] \<and>
      wire r = [0xA1, 0x20, 0, 0, 0, 0, 2, 0, 3, 0])"
proof -
  let ?acm = "(bound_acm USB_GADGET_XPORT_TTY)\<lparr>notify_req := None\<rparr>"
  let ?acm1 = "(bound_acm USB_GADGET_XPORT_TTY)\<lparr>notify_req := None, serial_state := 3, pending := True\<rparr>"
  let ?w = "(idle_world False USB_GADGET_XPORT_TTY)\<lparr>notify_queue := [fresh_req Acm_cdc_notify_complete]\<rparr>"
  let ?evs = "[Send_modem_ctrl_bits 1 0, Send_modem_ctrl_bits 2 0, Send_modem_ctrl_bits 3 0]"
  have 1: "notify_req ?acm = None" by simp
  have 2: "notify_queue ?w = [fresh_req Acm_cdc_notify_complete]" by simp
  have 3: "?evs \<noteq> []" by simp
  have 4: "list_all is_state_change ?evs" by simp
  have 5: "run ?evs (?acm, ?w) = Some (?acm1, ?w)"
    by (simp add: acm_send_modem_ctrl_bits_def acm_notify_serial_state_def bound_acm_def)
  have 6: "(0::int) \<noteq> - ESHUTDOWN" by (simp add: ESHUTDOWN_def)
  have three: "le16 3 = [3, 0]"
    by (simp add: le16_def)
  from notifications_are_coalesced [OF 1 2 3 4 5 6, of 0 0]
  obtain r acm2 w2 where
    "step (Complete 0 0) (?acm1, ?w) = Some (acm2, w2)"
    "notify_submitted w2 = notify_submitted ?w @ [(r, 0)]"
    "notify_queue w2 = (if (0::int) < 0 then [] else [r])"
    "wire r = serial_state_header (ctrl_id ?acm) @ le16 (serial_state ?acm1) @
                       (if config_lge ?w then replicate 6 0 else [])"
    by blast
  then have "step (Complete 0 0) (?acm1, ?w) = Some (acm2, w2) \<and>
      notify_submitted w2 = [(r, 0)] \<and> notify_queue w2 = [r] \<and>
      wire r = [0xA1, 0x20, 0, 0, 0, 0, 2, 0, 3, 0]"
    by (simp add: serial_state_header_bytes three bound_acm_def idle_world_def)
  with 5 show ?thesis by blast
qed

text \<open>
  C3. A completion of the notification transfer with the status \<^verbatim>\<open>-ESHUTDOWN\<close> puts the
  request back into the slot and does nothing else: the pending flag stays as it is, also
  when it is set, and \<^verbatim>\<open>usb_ep_queue\<close> is not called. A completion with any other
  status, with the pending flag set, puts the request back and runs
  \<^verbatim>\<open>acm_notify_serial_state\<close>, which hands one SerialState notification with the
  current state to \<^verbatim>\<open>usb_ep_queue\<close> and clears the flag.
\<close>

theorem shutdown_completion_has_no_follow_up:
  "(status req = - ESHUTDOWN \<longrightarrow>
      acm_cdc_notify_complete qst acm req w = (acm\<lparr>notify_req := Some req\<rparr>, w)) \<and>
   (status req \<noteq> - ESHUTDOWN \<and> pending acm \<longrightarrow>
      acm_cdc_notify_complete qst acm req w =
        (let (acm2, w2, st) = acm_notify_serial_state qst (acm\<lparr>notify_req := Some req\<rparr>) w
         in (acm2, w2)) \<and>
      (\<exists>r. wire r = serial_state_header (ctrl_id acm) @ le16 (serial_state acm) @
                      (if config_lge w then replicate 6 0 else []) \<and>
           acm_cdc_notify_complete qst acm req w =
             (acm\<lparr>notify_req := (if qst < 0 then Some r else None), pending := False\<rparr>,
              w\<lparr>notify_queue := (if qst < 0 then notify_queue w else notify_queue w @ [r]),
                notify_submitted := notify_submitted w @ [(r, qst)]\<rparr>)))"
proof -
  obtain r where
    "wire r = serial_state_header (ctrl_id acm) @ le16 (serial_state acm) @
               (if config_lge w then replicate 6 0 else [])"
    and "acm_notify_serial_state qst (acm\<lparr>notify_req := Some req\<rparr>) w =
       (acm\<lparr>notify_req := (if qst < 0 then Some r else None), pending := False\<rparr>,
        w\<lparr>notify_queue := (if qst < 0 then notify_queue w else notify_queue w @ [r]),
          notify_submitted := notify_submitted w @ [(r, qst)]\<rparr>, qst)"
    using acm_notify_serial_state_free [of "acm\<lparr>notify_req := Some req\<rparr>" req w qst]
    by auto
  then show ?thesis
    by (auto simp: acm_cdc_notify_complete_def)
qed

theorem shutdown_completion_has_no_follow_up_witness:
  "acm_cdc_notify_complete 0
      ((bound_acm USB_GADGET_XPORT_TTY)\<lparr>notify_req := None, pending := True\<rparr>)
      ((fresh_req Acm_cdc_notify_complete)\<lparr>status := - 108\<rparr>)
      (idle_world False USB_GADGET_XPORT_TTY) =
     ((bound_acm USB_GADGET_XPORT_TTY)
        \<lparr>notify_req := Some ((fresh_req Acm_cdc_notify_complete)\<lparr>status := - 108\<rparr>),
         pending := True\<rparr>,
      idle_world False USB_GADGET_XPORT_TTY) \<and>
   length (notify_submitted (snd (acm_cdc_notify_complete 0
      ((bound_acm USB_GADGET_XPORT_TTY)\<lparr>notify_req := None, pending := True\<rparr>)
      ((fresh_req Acm_cdc_notify_complete)\<lparr>status := - 104\<rparr>)
      (idle_world False USB_GADGET_XPORT_TTY)))) = 1"
proof -
  let ?acm = "(bound_acm USB_GADGET_XPORT_TTY)\<lparr>notify_req := None, pending := True\<rparr>"
  let ?w = "idle_world False USB_GADGET_XPORT_TTY"
  let ?down = "(fresh_req Acm_cdc_notify_complete)\<lparr>status := - 108\<rparr>"
  let ?reset = "(fresh_req Acm_cdc_notify_complete)\<lparr>status := - 104\<rparr>"
  have "status ?down = - ESHUTDOWN"
    by (simp add: ESHUTDOWN_def)
  with shutdown_completion_has_no_follow_up [of ?down 0 ?acm ?w]
  have a: "acm_cdc_notify_complete 0 ?acm ?down ?w = (?acm\<lparr>notify_req := Some ?down\<rparr>, ?w)"
    by blast
  have "status ?reset \<noteq> - ESHUTDOWN \<and> pending ?acm"
    by (simp add: ESHUTDOWN_def)
  with shutdown_completion_has_no_follow_up [of ?reset 0 ?acm ?w]
  obtain r where "acm_cdc_notify_complete 0 ?acm ?reset ?w =
             (?acm\<lparr>notify_req := (if (0::int) < 0 then Some r else None), pending := False\<rparr>,
              ?w\<lparr>notify_queue := (if (0::int) < 0 then notify_queue ?w else notify_queue ?w @ [r]),
                notify_submitted := notify_submitted ?w @ [(r, 0)]\<rparr>)"
    by blast
  then have b: "length (notify_submitted (snd (acm_cdc_notify_complete 0 ?acm ?reset ?w))) = 1"
    by (simp add: idle_world_def)
  from a b show ?thesis by simp
qed

text \<open>
  C4. When \<^verbatim>\<open>usb_ep_queue\<close> returns a negative status, \<^verbatim>\<open>acm_cdc_notify\<close> puts the
  request back into \<^verbatim>\<open>notify_req\<close> and returns that status, and so does
  \<^verbatim>\<open>acm_notify_serial_state\<close>; nothing is in flight that was not before and the pending
  flag is clear, so no retry is scheduled. When the slot is occupied,
  \<^verbatim>\<open>acm_notify_serial_state\<close> sets the pending flag, submits nothing and returns 0.
\<close>

theorem failed_submission_returns_slot:
  "(qst < 0 \<longrightarrow>
      (\<exists>r. acm_cdc_notify qst acm req type val data len w =
             (acm\<lparr>notify_req := Some r, pending := False\<rparr>,
              w\<lparr>notify_submitted := notify_submitted w @ [(r, qst)]\<rparr>, qst))) \<and>
   (qst < 0 \<and> notify_req acm = Some req \<longrightarrow>
      (\<exists>r. acm_notify_serial_state qst acm w =
             (acm\<lparr>notify_req := Some r, pending := False\<rparr>,
              w\<lparr>notify_submitted := notify_submitted w @ [(r, qst)]\<rparr>, qst))) \<and>
   (notify_req acm = None \<longrightarrow>
      acm_notify_serial_state qst acm w = (acm\<lparr>pending := True\<rparr>, w, 0))"
proof (intro conjI impI)
  assume "qst < 0"
  with acm_cdc_notify_shape [of qst acm req type val data len w]
  show "\<exists>r. acm_cdc_notify qst acm req type val data len w =
             (acm\<lparr>notify_req := Some r, pending := False\<rparr>,
              w\<lparr>notify_submitted := notify_submitted w @ [(r, qst)]\<rparr>, qst)"
    by simp
next
  assume "qst < 0 \<and> notify_req acm = Some req"
  with acm_cdc_notify_shape
         [of qst acm req USB_CDC_NOTIFY_SERIAL_STATE 0 "le16 (serial_state acm)" 2 w]
  show "\<exists>r. acm_notify_serial_state qst acm w =
             (acm\<lparr>notify_req := Some r, pending := False\<rparr>,
              w\<lparr>notify_submitted := notify_submitted w @ [(r, qst)]\<rparr>, qst)"
    by (simp add: acm_notify_serial_state_def)
next
  assume "notify_req acm = None"
  then show "acm_notify_serial_state qst acm w = (acm\<lparr>pending := True\<rparr>, w, 0)"
    by (simp add: acm_notify_serial_state_def)
qed

theorem failed_submission_returns_slot_witness:
  "(\<exists>r. acm_notify_serial_state (- 19) (bound_acm USB_GADGET_XPORT_TTY)
          (idle_world False USB_GADGET_XPORT_TTY) =
        ((bound_acm USB_GADGET_XPORT_TTY)\<lparr>notify_req := Some r\<rparr>,
         (idle_world False USB_GADGET_XPORT_TTY)\<lparr>notify_submitted := [(r, - 19)]\<rparr>, - 19)) \<and>
   acm_notify_serial_state 0 ((bound_acm USB_GADGET_XPORT_TTY)\<lparr>notify_req := None\<rparr>)
      (idle_world False USB_GADGET_XPORT_TTY) =
    ((bound_acm USB_GADGET_XPORT_TTY)\<lparr>notify_req := None, pending := True\<rparr>,
      idle_world False USB_GADGET_XPORT_TTY, 0)"
proof -
  let ?acm = "bound_acm USB_GADGET_XPORT_TTY"
  let ?w = "idle_world False USB_GADGET_XPORT_TTY"
  have "(- 19 :: int) < 0 \<and> notify_req ?acm = Some (fresh_req Acm_cdc_notify_complete)"
    by (simp add: bound_acm_def)
  with failed_submission_returns_slot [of "- 19" ?acm "fresh_req Acm_cdc_notify_complete" _ _ _ _ ?w]
  obtain r where "acm_notify_serial_state (- 19) ?acm ?w =
             (?acm\<lparr>notify_req := Some r, pending := False\<rparr>,
              ?w\<lparr>notify_submitted := notify_submitted ?w @ [(r, - 19)]\<rparr>, - 19)"
    by blast
  then have a: "\<exists>r. acm_notify_serial_state (- 19) ?acm ?w =
        (?acm\<lparr>notify_req := Some r\<rparr>, ?w\<lparr>notify_submitted := [(r, - 19)]\<rparr>, - 19)"
    by (simp add: bound_acm_def idle_world_def)
  have "notify_req (?acm\<lparr>notify_req := None\<rparr>) = None"
    by simp
  with failed_submission_returns_slot [of 0 "?acm\<lparr>notify_req := None\<rparr>" _ _ _ _ _ ?w]
  have b: "acm_notify_serial_state 0 (?acm\<lparr>notify_req := None\<rparr>) ?w =
      (?acm\<lparr>notify_req := None, pending := True\<rparr>, ?w, 0)"
    by simp
  from a b show ?thesis by blast
qed

text \<open>
  C5 (amended). With the slot free, \<^verbatim>\<open>acm_notify_serial_state\<close> hands exactly one
  request to \<^verbatim>\<open>usb_ep_queue\<close>. Its bytes on the wire start with the 8-byte header: the
  request type (device to host, class, interface), the notification code \<open>0x20\<close>, the
  value 0, the index that is the control interface id and the length 2, the 16-bit fields
  little-endian; the little-endian \<^verbatim>\<open>serial_state\<close> follows. Without
  \<^verbatim>\<open>CONFIG_LGE_USB_G_ANDROID\<close> these 10 bytes are the whole transfer. With it the
  transfer has the 16 bytes of \<^verbatim>\<open>GS_NOTIFY_MAXPACKET\<close>: six zero bytes follow the
  payload.
\<close>

theorem serial_state_notification_on_the_wire:
  "notify_req acm = Some req \<Longrightarrow>
     (\<exists>r. notify_submitted (fst (snd (acm_notify_serial_state qst acm w))) =
            notify_submitted w @ [(r, qst)] \<and>
          wire r =
            [USB_DIR_IN OR USB_TYPE_CLASS OR USB_RECIP_INTERFACE, USB_CDC_NOTIFY_SERIAL_STATE] @
            le16 0 @ le16 (ucast (ctrl_id acm)) @ le16 2 @ le16 (serial_state acm) @
            (if config_lge w then replicate 6 0 else []) \<and>
          length (wire r) = GS_NOTIFY_MAXPACKET (config_lge w))"
proof -
  assume "notify_req acm = Some req"
  from acm_notify_serial_state_free [OF this, of w qst]
  obtain r where
    r: "wire r = serial_state_header (ctrl_id acm) @ le16 (serial_state acm) @
               (if config_lge w then replicate 6 0 else [])"
    and e: "acm_notify_serial_state qst acm w =
       (acm\<lparr>notify_req := (if qst < 0 then Some r else None), pending := False\<rparr>,
        w\<lparr>notify_queue := (if qst < 0 then notify_queue w else notify_queue w @ [r]),
          notify_submitted := notify_submitted w @ [(r, qst)]\<rparr>, qst)"
    by blast
  have "length (wire r) = GS_NOTIFY_MAXPACKET (config_lge w)"
    by (simp add: r serial_state_header_bytes le16_def GS_NOTIFY_MAXPACKET_def)
  with r e show ?thesis
    by (simp add: serial_state_header_def USB_CDC_NOTIFY_SERIAL_STATE_def)
qed

theorem serial_state_notification_on_the_wire_witness:
  "map (\<lambda>(r, st). wire r)
     (notify_submitted (fst (snd (acm_notify_serial_state 0
        ((bound_acm USB_GADGET_XPORT_TTY)\<lparr>serial_state := 3\<rparr>)
        (idle_world False USB_GADGET_XPORT_TTY))))) =
   [[0xA1, 0x20, 0, 0, 0, 0, 2, 0, 3, 0]]"
proof -
  let ?acm = "(bound_acm USB_GADGET_XPORT_TTY)\<lparr>serial_state := 3\<rparr>"
  let ?w = "idle_world False USB_GADGET_XPORT_TTY"
  have "notify_req ?acm = Some (fresh_req Acm_cdc_notify_complete)"
    by (simp add: bound_acm_def)
  from serial_state_notification_on_the_wire [OF this, of 0 ?w]
  show ?thesis
    by (auto simp: idle_world_def bound_acm_def le16_def request_type_byte
        USB_CDC_NOTIFY_SERIAL_STATE_def)
qed

text \<open>
  C5 as it is stated fails in a build with \<^verbatim>\<open>CONFIG_LGE_USB_G_ANDROID\<close>: for the
  control interface 0 and the serial state 3 the notification handed to
  \<^verbatim>\<open>usb_ep_queue\<close> has 16 bytes, not the header followed by exactly the two bytes of
  the payload.
\<close>

theorem lge_notification_is_padded:
  "map (\<lambda>(r, st). wire r)
     (notify_submitted (fst (snd (acm_notify_serial_state 0
        ((bound_acm USB_GADGET_XPORT_TTY)\<lparr>serial_state := 3\<rparr>)
        (idle_world True USB_GADGET_XPORT_TTY))))) =
   [[0xA1, 0x20, 0, 0, 0, 0, 2, 0, 3, 0, 0, 0, 0, 0, 0, 0]] \<and>
   map (\<lambda>(r, st). wire r)
     (notify_submitted (fst (snd (acm_notify_serial_state 0
        ((bound_acm USB_GADGET_XPORT_TTY)\<lparr>serial_state := 3\<rparr>)
        (idle_world True USB_GADGET_XPORT_TTY))))) \<noteq>
   [serial_state_header 0 @ le16 3]"
proof -
  let ?acm = "(bound_acm USB_GADGET_XPORT_TTY)\<lparr>serial_state := 3\<rparr>"
  let ?w = "idle_world True USB_GADGET_XPORT_TTY"
  have six: "replicate 6 (0::u8) = [0, 0, 0, 0, 0, 0]"
    by (simp add: numeral_eq_Suc)
  have three: "le16 3 = [3, 0]"
    by (simp add: le16_def)
  have "notify_req ?acm = Some (fresh_req Acm_cdc_notify_complete)"
    by (simp add: bound_acm_def)
  from acm_notify_serial_state_free [OF this, of ?w 0]
  obtain r where
    r: "wire r = serial_state_header (ctrl_id ?acm) @ le16 (serial_state ?acm) @
               (if config_lge ?w then replicate 6 0 else [])"
    and e: "notify_submitted (fst (snd (acm_notify_serial_state 0 ?acm ?w))) =
              notify_submitted ?w @ [(r, 0)]"
    by auto
  have "wire r = [0xA1, 0x20, 0, 0, 0, 0, 2, 0, 3, 0, 0, 0, 0, 0, 0, 0]"
    using r by (simp add: serial_state_header_bytes three six bound_acm_def idle_world_def)
  with e show ?thesis
    by (simp add: idle_world_def serial_state_header_bytes three)
qed

text \<open>
  C6. When the data stage of SET\_LINE\_CODING completes with status 0: if the actual
  length is not the 7 bytes of the line-coding structure, the endpoint is halted and the
  driver state, with the line coding, is unchanged; if it is 7, the endpoint is left
  alone and the line coding becomes the structure that the 7 received bytes encode.
\<close>

theorem set_line_coding_checks_length:
  "status req = 0 \<Longrightarrow>
     (actual req \<noteq> 7 \<longrightarrow>
        acm_complete_set_line_coding acm ep req = (acm, ep\<lparr>halted := True\<rparr>)) \<and>
     (actual req = 7 \<longrightarrow>
        acm_complete_set_line_coding acm ep req =
          (acm\<lparr>port_line_coding := line_coding_at (buf req)\<rparr>, ep) \<and>
        line_coding_bytes (line_coding_at (buf req)) = bytes (buf req) 7)"
  by (simp add: acm_complete_set_line_coding_def sizeof_line_coding_def usb_ep_set_halt_def
      line_coding_roundtrip)

theorem set_line_coding_checks_length_witness:
  "status (fresh_req Acm_complete_set_line_coding) = 0 \<and>
   acm_complete_set_line_coding (bound_acm USB_GADGET_XPORT_TTY) idle_ep
       ((fresh_req Acm_complete_set_line_coding)\<lparr>actual := 5\<rparr>) =
     (bound_acm USB_GADGET_XPORT_TTY, idle_ep\<lparr>halted := True\<rparr>) \<and>
   acm_complete_set_line_coding (bound_acm USB_GADGET_XPORT_TTY) idle_ep
       ((fresh_req Acm_complete_set_line_coding)
          \<lparr>actual := 7, buf := memcpy (\<lambda>i. 0) 0 [0, 0xC2, 1, 0, 0, 0, 8]\<rparr>) =
     ((bound_acm USB_GADGET_XPORT_TTY)
        \<lparr>port_line_coding := \<lparr>dwDTERate = 115200, bCharFormat = 0, bParityType = 0, bDataBits = 8\<rparr>\<rparr>,
      idle_ep)"
  using set_line_coding_checks_length
          [of "(fresh_req Acm_complete_set_line_coding)\<lparr>actual := 5\<rparr>"
              "bound_acm USB_GADGET_XPORT_TTY" idle_ep]
        set_line_coding_checks_length
          [of "(fresh_req Acm_complete_set_line_coding)
                 \<lparr>actual := 7, buf := memcpy (\<lambda>i. 0) 0 [0, 0xC2, 1, 0, 0, 0, 8]\<rparr>"
              "bound_acm USB_GADGET_XPORT_TTY" idle_ep]
  by (simp add: fresh_req_def line_coding_at_def memcpy_def le32_of_def)

text \<open>
  C7. GET\_LINE\_CODING addressed to the control interface, for every requested length
  \<^verbatim>\<open>wLength\<close>: the response handed to \<^verbatim>\<open>usb_ep_queue\<close> on endpoint 0 carries the
  first \<open>min wLength 7\<close> bytes of the current line coding, the driver state is unchanged,
  and the world changes only in the response request and the record of the submission;
  \<^verbatim>\<open>acm_setup\<close> returns the status of that \<^verbatim>\<open>usb_ep_queue\<close>. Round trip: after a
  SET\_LINE\_CODING data stage has completed with status 0 and exactly 7 bytes, the
  response carries the first \<open>min wLength 7\<close> of the bytes received, all 7 of them when
  \<^verbatim>\<open>wLength\<close> is at least 7.
\<close>

theorem line_coding_round_trip:
  assumes "bRequestType ctrl = USB_DIR_IN OR USB_TYPE_CLASS OR USB_RECIP_INTERFACE"
    and "bRequest ctrl = USB_CDC_REQ_GET_LINE_CODING"
    and "uint (wIndex ctrl) = uint (ctrl_id acm)"
  shows "(\<exists>r. acm_setup qst acm ctrl w =
               (acm, w\<lparr>cdev_req := r, ep0_submitted := ep0_submitted w @ [(r, qst)]\<rparr>, qst) \<and>
             req_length r = min (unat (wLength ctrl)) 7 \<and>
             wire r = take (min (unat (wLength ctrl)) 7)
                        (line_coding_bytes (port_line_coding acm))) \<and>
         (status req = 0 \<and> actual req = 7 \<longrightarrow>
            (\<exists>acm1 ep1 r.
               acm_complete_set_line_coding acm ep req = (acm1, ep1) \<and>
               acm_setup qst acm1 ctrl w =
                 (acm1, w\<lparr>cdev_req := r, ep0_submitted := ep0_submitted w @ [(r, qst)]\<rparr>, qst) \<and>
               wire r = take (min (unat (wLength ctrl)) 7) (bytes (buf req) 7) \<and>
               (7 \<le> unat (wLength ctrl) \<longrightarrow> wire r = bytes (buf req) 7)))"
proof (intro conjI impI)
  show "\<exists>r. acm_setup qst acm ctrl w =
               (acm, w\<lparr>cdev_req := r, ep0_submitted := ep0_submitted w @ [(r, qst)]\<rparr>, qst) \<and>
             req_length r = min (unat (wLength ctrl)) 7 \<and>
             wire r = take (min (unat (wLength ctrl)) 7)
                        (line_coding_bytes (port_line_coding acm))"
    using assms by (rule acm_setup_get_line_coding)
next
  assume ok: "status req = 0 \<and> actual req = 7"
  define acm1 where "acm1 = acm\<lparr>port_line_coding := line_coding_at (buf req)\<rparr>"
  have c: "acm_complete_set_line_coding acm ep req = (acm1, ep)"
    using ok by (simp add: acm_complete_set_line_coding_def sizeof_line_coding_def acm1_def)
  have "uint (wIndex ctrl) = uint (ctrl_id acm1)"
    using assms(3) by (simp add: acm1_def)
  from acm_setup_get_line_coding [OF assms(1) assms(2) this, of qst w]
  obtain r where
    e: "acm_setup qst acm1 ctrl w =
          (acm1, w\<lparr>cdev_req := r, ep0_submitted := ep0_submitted w @ [(r, qst)]\<rparr>, qst)"
    and "wire r = take (min (unat (wLength ctrl)) 7) (line_coding_bytes (port_line_coding acm1))"
    by blast
  then have w: "wire r = take (min (unat (wLength ctrl)) 7) (bytes (buf req) 7)"
    by (simp add: acm1_def line_coding_roundtrip)
  have "length (bytes (buf req) 7) = 7"
    by (simp add: bytes_def)
  with w have "7 \<le> unat (wLength ctrl) \<longrightarrow> wire r = bytes (buf req) 7"
    by (simp add: min_def)
  with c e w show "\<exists>acm1 ep1 r.
               acm_complete_set_line_coding acm ep req = (acm1, ep1) \<and>
               acm_setup qst acm1 ctrl w =
                 (acm1, w\<lparr>cdev_req := r, ep0_submitted := ep0_submitted w @ [(r, qst)]\<rparr>, qst) \<and>
               wire r = take (min (unat (wLength ctrl)) 7) (bytes (buf req) 7) \<and>
               (7 \<le> unat (wLength ctrl) \<longrightarrow> wire r = bytes (buf req) 7)"
    by blast
qed

text \<open>The line coding 115200 baud, one stop bit, no parity, 8 data bits, set and read
  back.\<close>

theorem line_coding_round_trip_witness:
  "(\<exists>acm1 ep1 r.
      acm_complete_set_line_coding (bound_acm USB_GADGET_XPORT_TTY) (ep0 (idle_world False USB_GADGET_XPORT_TTY))
        ((fresh_req Acm_complete_set_line_coding)
           \<lparr>actual := 7, buf := memcpy (\<lambda>i. 0) 0 [0, 0xC2, 1, 0, 0, 0, 8]\<rparr>) = (acm1, ep1) \<and>
      acm_setup 0 acm1
        \<lparr>bRequestType = 0xA1, bRequest = 0x21, wValue = 0, wIndex = 0, wLength = 7\<rparr>
        (idle_world False USB_GADGET_XPORT_TTY) =
        (acm1, (idle_world False USB_GADGET_XPORT_TTY)\<lparr>cdev_req := r, ep0_submitted := [(r, 0)]\<rparr>, 0) \<and>
      wire r = [0, 0xC2, 1, 0, 0, 0, 8])"
proof -
  let ?acm = "bound_acm USB_GADGET_XPORT_TTY"
  let ?w = "idle_world False USB_GADGET_XPORT_TTY"
  let ?ctrl = "\<lparr>bRequestType = 0xA1, bRequest = 0x21, wValue = 0, wIndex = 0, wLength = 7\<rparr>"
  let ?req = "(fresh_req Acm_complete_set_line_coding)
           \<lparr>actual := 7, buf := memcpy (\<lambda>i. 0) 0 [0, 0xC2, 1, 0, 0, 0, 8]\<rparr>"
  have 1: "bRequestType ?ctrl = USB_DIR_IN OR USB_TYPE_CLASS OR USB_RECIP_INTERFACE"
    by (simp add: request_type_byte)
  have 2: "bRequest ?ctrl = USB_CDC_REQ_GET_LINE_CODING"
    by (simp add: USB_CDC_REQ_GET_LINE_CODING_def)
  have 3: "uint (wIndex ?ctrl) = uint (ctrl_id ?acm)"
    by (simp add: bound_acm_def)
  have 4: "status ?req = 0 \<and> actual ?req = 7"
    by (simp add: fresh_req_def)
  have 5: "bytes (buf ?req) 7 = [0, 0xC2, 1, 0, 0, 0, 8]"
    by (simp add: bytes_def memcpy_def upt_rec)
  have 6: "ep0_submitted ?w = []"
    by (simp add: idle_world_def)
  from line_coding_round_trip [OF 1 2 3, of 0 ?w ?req "ep0 ?w"] 4
  obtain acm1 ep1 r where
    "acm_complete_set_line_coding ?acm (ep0 ?w) ?req = (acm1, ep1)"
    "acm_setup 0 acm1 ?ctrl ?w =
       (acm1, ?w\<lparr>cdev_req := r, ep0_submitted := ep0_submitted ?w @ [(r, 0)]\<rparr>, 0)"
    "7 \<le> unat (wLength ?ctrl) \<longrightarrow> wire r = bytes (buf ?req) 7"
    by blast
  then show ?thesis
    unfolding 5 6 by auto
qed

text \<open>
  C8. The claim holds for a failed binding of the data endpoints (lemma
  \<open>acm_set_alt_bind_failure\<close>), and \<^verbatim>\<open>acm_port_connect\<close> does fail with
  \<^verbatim>\<open>-ENODEV\<close> for a transport that is neither TTY nor SMD. But \<^verbatim>\<open>acm_set_alt\<close> drops
  what \<^verbatim>\<open>acm_port_connect\<close> returns: for a port whose transport is the enumerator 0
  (what the zeroed table \<^verbatim>\<open>gacm_ports\<close> holds), activating the data interface 1 binds
  both descriptors, connects no transport and returns 0.
\<close>

theorem unsupported_transport_activation_reports_success:
  "transport (bound_acm (USB_GADGET_XPORT_OTHER 0)) = USB_GADGET_XPORT_OTHER 0 \<and>
   snd (acm_port_connect (bound_acm (USB_GADGET_XPORT_OTHER 0))
          (idle_world False (USB_GADGET_XPORT_OTHER 0))) = - ENODEV \<and>
   acm_set_alt 0 0 0 (bound_acm (USB_GADGET_XPORT_OTHER 0)) 1 0
       (idle_world False (USB_GADGET_XPORT_OTHER 0)) =
     ((bound_acm (USB_GADGET_XPORT_OTHER 0))
        \<lparr>port_in := idle_ep\<lparr>desc := True\<rparr>, port_out := idle_ep\<lparr>desc := True\<rparr>\<rparr>,
      idle_world False (USB_GADGET_XPORT_OTHER 0), 0)"
  by (simp add: acm_set_alt_def acm_port_connect_def bound_acm_def idle_ep_def
      config_ep_by_speed_def Let_def)

text \<open>The value that \<^verbatim>\<open>acm_set_alt\<close> returns there, and the calls into the
  transports after it.\<close>

theorem unsupported_transport_activation_reports_success_witness:
  "snd (snd (acm_set_alt 0 0 0 (bound_acm (USB_GADGET_XPORT_OTHER 0)) 1 0
       (idle_world False (USB_GADGET_XPORT_OTHER 0)))) = 0 \<and>
   xport_calls (fst (snd (acm_set_alt 0 0 0 (bound_acm (USB_GADGET_XPORT_OTHER 0)) 1 0
       (idle_world False (USB_GADGET_XPORT_OTHER 0))))) = []"
  using unsupported_transport_activation_reports_success
  by (simp add: idle_world_def)

text \<open>
  C9 (amended). In every state, \<^verbatim>\<open>acm_connect\<close> sets exactly the bits DCD and DSR of
  \<^verbatim>\<open>serial_state\<close> and \<^verbatim>\<open>acm_disconnect\<close> clears exactly these two; the other bits
  stay. Each then runs \<^verbatim>\<open>acm_notify_serial_state\<close>. With the slot free, one notification
  goes to \<^verbatim>\<open>usb_ep_queue\<close>, and its payload is the new state: the two bits set after a
  connect, cleared after a disconnect. With the slot checked out, the call is coalesced,
  for a connect as for a disconnect: nothing is submitted and the pending flag is set.
  When the transfer in flight then completes with a status other than
  \<^verbatim>\<open>-ESHUTDOWN\<close>, the follow-up carries that state.
\<close>

theorem connect_disconnect_bits:
  "serial_state (fst (acm_connect q acm w)) =
     serial_state acm OR (ACM_CTRL_DSR OR ACM_CTRL_DCD) \<and>
   serial_state (fst (acm_disconnect q acm w)) =
     serial_state acm AND NOT (ACM_CTRL_DSR OR ACM_CTRL_DCD) \<and>
   (notify_req acm = None \<longrightarrow>
      acm_connect q acm w =
        (acm\<lparr>serial_state := serial_state acm OR (ACM_CTRL_DSR OR ACM_CTRL_DCD),
             pending := True\<rparr>, w)) \<and>
   (notify_req acm \<noteq> None \<longrightarrow>
      (\<exists>r. wire r = serial_state_header (ctrl_id acm) @
                      le16 (serial_state acm OR (ACM_CTRL_DSR OR ACM_CTRL_DCD)) @
                      (if config_lge w then replicate 6 0 else []) \<and>
           acm_connect q acm w =
             (acm\<lparr>serial_state := serial_state acm OR (ACM_CTRL_DSR OR ACM_CTRL_DCD),
                  notify_req := (if q < 0 then Some r else None), pending := False\<rparr>,
              w\<lparr>notify_queue := (if q < 0 then notify_queue w else notify_queue w @ [r]),
                notify_submitted := notify_submitted w @ [(r, q)]\<rparr>))) \<and>
   (notify_req acm = None \<longrightarrow>
      acm_disconnect q acm w =
        (acm\<lparr>serial_state := serial_state acm AND NOT (ACM_CTRL_DSR OR ACM_CTRL_DCD),
             pending := True\<rparr>, w)) \<and>
   (notify_req acm \<noteq> None \<longrightarrow>
      (\<exists>r. wire r = serial_state_header (ctrl_id acm) @
                      le16 (serial_state acm AND NOT (ACM_CTRL_DSR OR ACM_CTRL_DCD)) @
                      (if config_lge w then replicate 6 0 else []) \<and>
           acm_disconnect q acm w =
             (acm\<lparr>serial_state := serial_state acm AND NOT (ACM_CTRL_DSR OR ACM_CTRL_DCD),
                  notify_req := (if q < 0 then Some r else None), pending := False\<rparr>,
              w\<lparr>notify_queue := (if q < 0 then notify_queue w else notify_queue w @ [r]),
                notify_submitted := notify_submitted w @ [(r, q)]\<rparr>))) \<and>
   (notify_req acm = None \<and> notify_queue w = r0 # rest \<and> st \<noteq> - ESHUTDOWN \<longrightarrow>
      (\<exists>acm3 w3 r3.
         step (Complete st q3) (acm_connect q acm w) = Some (acm3, w3) \<and>
         notify_submitted w3 = notify_submitted w @ [(r3, q3)] \<and>
         wire r3 = serial_state_header (ctrl_id acm) @
                     le16 (serial_state acm OR (ACM_CTRL_DSR OR ACM_CTRL_DCD)) @
                     (if config_lge w then replicate 6 0 else [])) \<and>
      (\<exists>acm3 w3 r3.
         step (Complete st q3) (acm_disconnect q acm w) = Some (acm3, w3) \<and>
         notify_submitted w3 = notify_submitted w @ [(r3, q3)] \<and>
         wire r3 = serial_state_header (ctrl_id acm) @
                     le16 (serial_state acm AND NOT (ACM_CTRL_DSR OR ACM_CTRL_DCD)) @
                     (if config_lge w then replicate 6 0 else []))) \<and>
   (serial_state acm OR (ACM_CTRL_DSR OR ACM_CTRL_DCD)) AND (ACM_CTRL_DSR OR ACM_CTRL_DCD) =
      ACM_CTRL_DSR OR ACM_CTRL_DCD \<and>
   (serial_state acm OR (ACM_CTRL_DSR OR ACM_CTRL_DCD)) AND NOT (ACM_CTRL_DSR OR ACM_CTRL_DCD) =
      serial_state acm AND NOT (ACM_CTRL_DSR OR ACM_CTRL_DCD) \<and>
   (serial_state acm AND NOT (ACM_CTRL_DSR OR ACM_CTRL_DCD)) AND (ACM_CTRL_DSR OR ACM_CTRL_DCD) = 0"
proof -
  let ?b = "ACM_CTRL_DSR OR ACM_CTRL_DCD"
  let ?pad = "if config_lge w then replicate 6 0 else []"
  have cb: "notify_req acm = None \<longrightarrow>
      acm_connect q acm w = (acm\<lparr>serial_state := serial_state acm OR ?b, pending := True\<rparr>, w)"
    by (simp add: acm_connect_busy)
  have db: "notify_req acm = None \<longrightarrow>
      acm_disconnect q acm w =
        (acm\<lparr>serial_state := serial_state acm AND NOT ?b, pending := True\<rparr>, w)"
    by (simp add: acm_disconnect_busy)
  have cf: "notify_req acm \<noteq> None \<longrightarrow>
      (\<exists>r. wire r = serial_state_header (ctrl_id acm) @ le16 (serial_state acm OR ?b) @ ?pad \<and>
           acm_connect q acm w =
             (acm\<lparr>serial_state := serial_state acm OR ?b,
                  notify_req := (if q < 0 then Some r else None), pending := False\<rparr>,
              w\<lparr>notify_queue := (if q < 0 then notify_queue w else notify_queue w @ [r]),
                notify_submitted := notify_submitted w @ [(r, q)]\<rparr>))"
  proof
    assume "notify_req acm \<noteq> None"
    then obtain req where "notify_req acm = Some req" by auto
    then show "\<exists>r. wire r = serial_state_header (ctrl_id acm) @ le16 (serial_state acm OR ?b) @ ?pad \<and>
           acm_connect q acm w =
             (acm\<lparr>serial_state := serial_state acm OR ?b,
                  notify_req := (if q < 0 then Some r else None), pending := False\<rparr>,
              w\<lparr>notify_queue := (if q < 0 then notify_queue w else notify_queue w @ [r]),
                notify_submitted := notify_submitted w @ [(r, q)]\<rparr>)"
      by (rule acm_connect_free)
  qed
  have df: "notify_req acm \<noteq> None \<longrightarrow>
      (\<exists>r. wire r = serial_state_header (ctrl_id acm) @ le16 (serial_state acm AND NOT ?b) @ ?pad \<and>
           acm_disconnect q acm w =
             (acm\<lparr>serial_state := serial_state acm AND NOT ?b,
                  notify_req := (if q < 0 then Some r else None), pending := False\<rparr>,
              w\<lparr>notify_queue := (if q < 0 then notify_queue w else notify_queue w @ [r]),
                notify_submitted := notify_submitted w @ [(r, q)]\<rparr>))"
  proof
    assume "notify_req acm \<noteq> None"
    then obtain req where "notify_req acm = Some req" by auto
    then show "\<exists>r. wire r = serial_state_header (ctrl_id acm) @ le16 (serial_state acm AND NOT ?b) @ ?pad \<and>
           acm_disconnect q acm w =
             (acm\<lparr>serial_state := serial_state acm AND NOT ?b,
                  notify_req := (if q < 0 then Some r else None), pending := False\<rparr>,
              w\<lparr>notify_queue := (if q < 0 then notify_queue w else notify_queue w @ [r]),
                notify_submitted := notify_submitted w @ [(r, q)]\<rparr>)"
      by (rule acm_disconnect_free)
  qed
  have fu: "notify_req acm = None \<and> notify_queue w = r0 # rest \<and> st \<noteq> - ESHUTDOWN \<longrightarrow>
      (\<exists>acm3 w3 r3.
         step (Complete st q3) (acm_connect q acm w) = Some (acm3, w3) \<and>
         notify_submitted w3 = notify_submitted w @ [(r3, q3)] \<and>
         wire r3 = serial_state_header (ctrl_id acm) @ le16 (serial_state acm OR ?b) @ ?pad) \<and>
      (\<exists>acm3 w3 r3.
         step (Complete st q3) (acm_disconnect q acm w) = Some (acm3, w3) \<and>
         notify_submitted w3 = notify_submitted w @ [(r3, q3)] \<and>
         wire r3 = serial_state_header (ctrl_id acm) @ le16 (serial_state acm AND NOT ?b) @ ?pad)"
  proof (intro impI)
    assume a: "notify_req acm = None \<and> notify_queue w = r0 # rest \<and> st \<noteq> - ESHUTDOWN"
    then have st: "status (r0\<lparr>status := st\<rparr>) \<noteq> - ESHUTDOWN" by simp
    let ?c = "acm\<lparr>serial_state := serial_state acm OR ?b, pending := True\<rparr>"
    let ?d = "acm\<lparr>serial_state := serial_state acm AND NOT ?b, pending := True\<rparr>"
    have pc: "pending ?c" and pd: "pending ?d" by simp_all
    from complete_follow_up [OF st pc, of "w\<lparr>notify_queue := rest\<rparr>" q3] a
    have 1: "\<exists>acm3 w3 r3.
         step (Complete st q3) (acm_connect q acm w) = Some (acm3, w3) \<and>
         notify_submitted w3 = notify_submitted w @ [(r3, q3)] \<and>
         wire r3 = serial_state_header (ctrl_id acm) @ le16 (serial_state acm OR ?b) @ ?pad"
      by (auto simp: acm_connect_busy)
    from complete_follow_up [OF st pd, of "w\<lparr>notify_queue := rest\<rparr>" q3] a
    have 2: "\<exists>acm3 w3 r3.
         step (Complete st q3) (acm_disconnect q acm w) = Some (acm3, w3) \<and>
         notify_submitted w3 = notify_submitted w @ [(r3, q3)] \<and>
         wire r3 = serial_state_header (ctrl_id acm) @ le16 (serial_state acm AND NOT ?b) @ ?pad"
      by (auto simp: acm_disconnect_busy)
    from 1 2 show "(\<exists>acm3 w3 r3.
         step (Complete st q3) (acm_connect q acm w) = Some (acm3, w3) \<and>
         notify_submitted w3 = notify_submitted w @ [(r3, q3)] \<and>
         wire r3 = serial_state_header (ctrl_id acm) @ le16 (serial_state acm OR ?b) @ ?pad) \<and>
      (\<exists>acm3 w3 r3.
         step (Complete st q3) (acm_disconnect q acm w) = Some (acm3, w3) \<and>
         notify_submitted w3 = notify_submitted w @ [(r3, q3)] \<and>
         wire r3 = serial_state_header (ctrl_id acm) @ le16 (serial_state acm AND NOT ?b) @ ?pad)"
      by (rule conjI)
  qed
  have sc: "serial_state (fst (acm_connect q acm w)) = serial_state acm OR ?b"
  proof (cases "notify_req acm")
    case None
    then show ?thesis by (simp add: acm_connect_busy)
  next
    case (Some req)
    from acm_connect_free [OF Some, of w q] show ?thesis by auto
  qed
  have sd: "serial_state (fst (acm_disconnect q acm w)) = serial_state acm AND NOT ?b"
  proof (cases "notify_req acm")
    case None
    then show ?thesis by (simp add: acm_disconnect_busy)
  next
    case (Some req)
    from acm_disconnect_free [OF Some, of w q] show ?thesis by auto
  qed
  from sc sd cb cf db df fu dsr_dcd_bits(1) [of "serial_state acm" ?b]
    dsr_dcd_bits(2) [of "serial_state acm" ?b] dsr_dcd_bits(3) [of "serial_state acm" ?b]
  show ?thesis
    by (intro conjI)
qed

text \<open>With the break bit set before: a connect on a free slot submits the state 7, and a
  disconnect from the state 7 while a transfer is in flight leaves the state 4, which the
  follow-up carries.\<close>

theorem connect_disconnect_bits_witness:
  "(\<exists>r. wire r = [0xA1, 0x20, 0, 0, 0, 0, 2, 0, 7, 0] \<and>
        acm_connect 0 ((bound_acm USB_GADGET_XPORT_TTY)\<lparr>serial_state := 4\<rparr>)
          (idle_world False USB_GADGET_XPORT_TTY) =
        ((bound_acm USB_GADGET_XPORT_TTY)\<lparr>serial_state := 7, notify_req := None\<rparr>,
         (idle_world False USB_GADGET_XPORT_TTY)
           \<lparr>notify_queue := [r], notify_submitted := [(r, 0)]\<rparr>)) \<and>
   acm_disconnect 0
     ((bound_acm USB_GADGET_XPORT_TTY)\<lparr>serial_state := 7, notify_req := None\<rparr>)
     ((idle_world False USB_GADGET_XPORT_TTY)
        \<lparr>notify_queue := [fresh_req Acm_cdc_notify_complete]\<rparr>) =
     ((bound_acm USB_GADGET_XPORT_TTY)
        \<lparr>serial_state := 4, notify_req := None, pending := True\<rparr>,
      (idle_world False USB_GADGET_XPORT_TTY)
        \<lparr>notify_queue := [fresh_req Acm_cdc_notify_complete]\<rparr>) \<and>
   (\<exists>acm3 w3 r3.
      step (Complete 0 0)
        (acm_disconnect 0
           ((bound_acm USB_GADGET_XPORT_TTY)\<lparr>serial_state := 7, notify_req := None\<rparr>)
           ((idle_world False USB_GADGET_XPORT_TTY)
              \<lparr>notify_queue := [fresh_req Acm_cdc_notify_complete]\<rparr>)) = Some (acm3, w3) \<and>
      notify_submitted w3 = [(r3, 0)] \<and>
      wire r3 = [0xA1, 0x20, 0, 0, 0, 0, 2, 0, 4, 0])"
proof -
  let ?idle = "(bound_acm USB_GADGET_XPORT_TTY)\<lparr>serial_state := 4\<rparr>"
  let ?busy = "(bound_acm USB_GADGET_XPORT_TTY)\<lparr>serial_state := 7, notify_req := None\<rparr>"
  let ?w = "idle_world False USB_GADGET_XPORT_TTY"
  let ?wb = "(idle_world False USB_GADGET_XPORT_TTY)
        \<lparr>notify_queue := [fresh_req Acm_cdc_notify_complete]\<rparr>"
  have le: "le16 7 = [7, 0]" "le16 4 = [4, 0]"
    by (simp_all add: le16_def)
  have b: "(4::u16) OR (ACM_CTRL_DSR OR ACM_CTRL_DCD) = 7"
    "(7::u16) AND NOT (ACM_CTRL_DSR OR ACM_CTRL_DCD) = 4"
    by (simp_all add: ACM_CTRL_DSR_def ACM_CTRL_DCD_def)
  have i: "notify_req ?idle \<noteq> None" "serial_state ?idle = 4" "ctrl_id ?idle = 0"
    "config_lge ?w = False" "notify_queue ?w = []" "notify_submitted ?w = []"
    by (simp_all add: bound_acm_def idle_world_def)
  have u: "notify_req ?busy = None" "serial_state ?busy = 7" "ctrl_id ?busy = 0"
    "config_lge ?wb = False" "notify_submitted ?wb = []"
    "notify_queue ?wb = fresh_req Acm_cdc_notify_complete # []"
    by (simp_all add: bound_acm_def idle_world_def)
  have s: "(0::int) \<noteq> - ESHUTDOWN"
    by (simp add: ESHUTDOWN_def)
  from connect_disconnect_bits [of 0 ?idle ?w] i(1)
  obtain r where
    "wire r = serial_state_header (ctrl_id ?idle) @
                 le16 (serial_state ?idle OR (ACM_CTRL_DSR OR ACM_CTRL_DCD)) @
                 (if config_lge ?w then replicate 6 0 else [])"
    "acm_connect 0 ?idle ?w =
       (?idle\<lparr>serial_state := serial_state ?idle OR (ACM_CTRL_DSR OR ACM_CTRL_DCD),
            notify_req := (if (0::int) < 0 then Some r else None), pending := False\<rparr>,
        ?w\<lparr>notify_queue := (if (0::int) < 0 then notify_queue ?w else notify_queue ?w @ [r]),
          notify_submitted := notify_submitted ?w @ [(r, 0)]\<rparr>)"
    by blast
  then have 1: "\<exists>r. wire r = [0xA1, 0x20, 0, 0, 0, 0, 2, 0, 7, 0] \<and>
        acm_connect 0 ?idle ?w =
        ((bound_acm USB_GADGET_XPORT_TTY)\<lparr>serial_state := 7, notify_req := None\<rparr>,
         ?w\<lparr>notify_queue := [r], notify_submitted := [(r, 0)]\<rparr>)"
    unfolding i(2-6) b by (auto simp: le serial_state_header_bytes bound_acm_def)
  from connect_disconnect_bits [of 0 ?busy ?wb] u(1)
  have "acm_disconnect 0 ?busy ?wb =
      (?busy\<lparr>serial_state := serial_state ?busy AND NOT (ACM_CTRL_DSR OR ACM_CTRL_DCD),
             pending := True\<rparr>, ?wb)"
    by blast
  then have 2: "acm_disconnect 0 ?busy ?wb =
     ((bound_acm USB_GADGET_XPORT_TTY)\<lparr>serial_state := 4, notify_req := None, pending := True\<rparr>,
      ?wb)"
    unfolding u(2) b by simp
  from connect_disconnect_bits
         [of 0 ?busy ?wb "fresh_req Acm_cdc_notify_complete" "[]" 0 0] u(1) u(6) s
  obtain acm3 w3 r3 where
    "step (Complete 0 0) (acm_disconnect 0 ?busy ?wb) = Some (acm3, w3)"
    "notify_submitted w3 = notify_submitted ?wb @ [(r3, 0)]"
    "wire r3 = serial_state_header (ctrl_id ?busy) @
                 le16 (serial_state ?busy AND NOT (ACM_CTRL_DSR OR ACM_CTRL_DCD)) @
                 (if config_lge ?wb then replicate 6 0 else [])"
    by blast
  then have 3: "\<exists>acm3 w3 r3.
      step (Complete 0 0) (acm_disconnect 0 ?busy ?wb) = Some (acm3, w3) \<and>
      notify_submitted w3 = [(r3, 0)] \<and>
      wire r3 = [0xA1, 0x20, 0, 0, 0, 0, 2, 0, 4, 0]"
    unfolding u(2-5) b by (auto simp: le serial_state_header_bytes)
  from 1 2 3 show ?thesis by blast
qed

text \<open>
  C9 as it is stated fails while a transfer is in flight: \<^verbatim>\<open>acm_connect\<close> sets the two
  bits but hands nothing to \<^verbatim>\<open>usb_ep_queue\<close>, and when the disconnect follows before the
  transfer completes, the one notification submitted after the completion has the
  payload 0: no notification has carried the two bits set.
\<close>

theorem busy_connect_submits_nothing:
  "acm_connect 0 ((bound_acm USB_GADGET_XPORT_TTY)\<lparr>notify_req := None\<rparr>)
     ((idle_world False USB_GADGET_XPORT_TTY)
        \<lparr>notify_queue := [fresh_req Acm_cdc_notify_complete]\<rparr>) =
     ((bound_acm USB_GADGET_XPORT_TTY)
        \<lparr>notify_req := None, serial_state := 3, pending := True\<rparr>,
      (idle_world False USB_GADGET_XPORT_TTY)
        \<lparr>notify_queue := [fresh_req Acm_cdc_notify_complete]\<rparr>) \<and>
   notify_submitted ((idle_world False USB_GADGET_XPORT_TTY)
        \<lparr>notify_queue := [fresh_req Acm_cdc_notify_complete]\<rparr>) = [] \<and>
   (\<exists>acm3 w3 r3.
      run [Connect 0, Disconnect 0, Complete 0 0]
        ((bound_acm USB_GADGET_XPORT_TTY)\<lparr>notify_req := None\<rparr>,
         (idle_world False USB_GADGET_XPORT_TTY)
           \<lparr>notify_queue := [fresh_req Acm_cdc_notify_complete]\<rparr>) = Some (acm3, w3) \<and>
      notify_submitted w3 = [(r3, 0)] \<and>
      wire r3 = [0xA1, 0x20, 0, 0, 0, 0, 2, 0, 0, 0])"
proof -
  let ?acm = "(bound_acm USB_GADGET_XPORT_TTY)\<lparr>notify_req := None\<rparr>"
  let ?c = "(bound_acm USB_GADGET_XPORT_TTY)\<lparr>notify_req := None, serial_state := 3, pending := True\<rparr>"
  let ?d = "(bound_acm USB_GADGET_XPORT_TTY)\<lparr>notify_req := None, serial_state := 0, pending := True\<rparr>"
  let ?w = "(idle_world False USB_GADGET_XPORT_TTY)
        \<lparr>notify_queue := [fresh_req Acm_cdc_notify_complete]\<rparr>"
  have c: "acm_connect 0 ?acm ?w = (?c, ?w)"
    by (simp add: acm_connect_busy bound_acm_def ACM_CTRL_DSR_def ACM_CTRL_DCD_def)
  have d: "acm_disconnect 0 ?c ?w = (?d, ?w)"
    by (simp add: acm_disconnect_busy bound_acm_def ACM_CTRL_DSR_def ACM_CTRL_DCD_def)
  have n: "notify_submitted ?w = []"
    by (simp add: idle_world_def)
  have "status ((fresh_req Acm_cdc_notify_complete)\<lparr>status := 0\<rparr>) \<noteq> - ESHUTDOWN"
    by (simp add: ESHUTDOWN_def)
  moreover have "pending ?d" by simp
  ultimately obtain r3 where
    r: "wire r3 = serial_state_header (ctrl_id ?d) @ le16 (serial_state ?d) @
                      (if config_lge (?w\<lparr>notify_queue := []\<rparr>) then replicate 6 0 else [])"
    and e: "acm_cdc_notify_complete 0 ?d ((fresh_req Acm_cdc_notify_complete)\<lparr>status := 0\<rparr>)
              (?w\<lparr>notify_queue := []\<rparr>) =
             (?d\<lparr>notify_req := (if (0::int) < 0 then Some r3 else None), pending := False\<rparr>,
              (?w\<lparr>notify_queue := []\<rparr>)
                \<lparr>notify_queue := (if (0::int) < 0 then notify_queue (?w\<lparr>notify_queue := []\<rparr>)
                                  else notify_queue (?w\<lparr>notify_queue := []\<rparr>) @ [r3]),
                 notify_submitted := notify_submitted (?w\<lparr>notify_queue := []\<rparr>) @ [(r3, 0)]\<rparr>)"
    using complete_follow_up
            [of "(fresh_req Acm_cdc_notify_complete)\<lparr>status := 0\<rparr>" ?d
                "?w\<lparr>notify_queue := []\<rparr>" 0]
    by blast
  have w3: "wire r3 = [0xA1, 0x20, 0, 0, 0, 0, 2, 0, 0, 0]"
    using r by (simp add: serial_state_header_bytes le16_0 bound_acm_def idle_world_def)
  have "\<exists>acm3 w3. run [Connect 0, Disconnect 0, Complete 0 0] (?acm, ?w) = Some (acm3, w3) \<and>
      notify_submitted w3 = [(r3, 0)]"
    using c d e by (simp add: idle_world_def)
  with w3 c n show ?thesis by blast
qed

text \<open>
  C10. When the completion routine of the SET\_LINE\_CODING data stage is called with a
  non-zero status, it returns at once: the whole driver state, and with it the line
  coding, is what it was, and the endpoint is what it was, so the call does not halt it.
  This differs from a short transfer: the same request with status 0 and a length other
  than 7 halts the endpoint.
\<close>

theorem set_line_coding_error_status_is_dropped:
  "status req \<noteq> 0 \<Longrightarrow>
     acm_complete_set_line_coding acm ep req = (acm, ep) \<and>
     (actual req \<noteq> 7 \<longrightarrow>
        acm_complete_set_line_coding acm ep (req\<lparr>status := 0\<rparr>) = (acm, ep\<lparr>halted := True\<rparr>))"
  by (simp add: acm_complete_set_line_coding_def sizeof_line_coding_def usb_ep_set_halt_def)

theorem set_line_coding_error_status_is_dropped_witness:
  "status ((fresh_req Acm_complete_set_line_coding)\<lparr>status := - 104, actual := 5\<rparr>) \<noteq> 0 \<and>
   acm_complete_set_line_coding (bound_acm USB_GADGET_XPORT_TTY) idle_ep
       ((fresh_req Acm_complete_set_line_coding)\<lparr>status := - 104, actual := 5\<rparr>) =
     (bound_acm USB_GADGET_XPORT_TTY, idle_ep) \<and>
   \<not> halted (snd (acm_complete_set_line_coding (bound_acm USB_GADGET_XPORT_TTY) idle_ep
       ((fresh_req Acm_complete_set_line_coding)\<lparr>status := - 104, actual := 5\<rparr>)))"
  using set_line_coding_error_status_is_dropped
          [of "(fresh_req Acm_complete_set_line_coding)\<lparr>status := - 104, actual := 5\<rparr>"
              "bound_acm USB_GADGET_XPORT_TTY" idle_ep]
  by (simp add: idle_ep_def)

end
